theory Spec2Isabelle
  imports Main
begin

section \<open>JavaScript values and strings\<close>

text \<open>
  A JavaScript string is modelled as a \<^typ>\<open>string\<close> with one \<^typ>\<open>char\<close> per code unit
  below 256 (so \<open>CHR 0xF3\<close> is the letter o with acute accent). \<open>trim\<close> removes the white
  space of that range from both ends; \<open>toLowerCase\<close> maps the capitals of that range
  (\<open>A\<close> to \<open>Z\<close>, and the accented ones from \<open>0xC0\<close> to \<open>0xDE\<close> but the sign \<open>0xD7\<close>).
\<close>

definition StrWhiteSpaceChar :: "char \<Rightarrow> bool" where
  "StrWhiteSpaceChar c \<longleftrightarrow>
     c \<in> set [CHR 0x09, CHR 0x0A, CHR 0x0B, CHR 0x0C, CHR 0x0D, CHR 0x20, CHR 0xA0]"

definition trim :: "string \<Rightarrow> string" where
  "trim s = rev (dropWhile StrWhiteSpaceChar (rev (dropWhile StrWhiteSpaceChar s)))"

definition upper_chars :: string where
  "upper_chars = ''ABCDEFGHIJKLMNOPQRSTUVWXYZ'' @
     [CHR 0xC0, CHR 0xC1, CHR 0xC2, CHR 0xC3, CHR 0xC4, CHR 0xC5, CHR 0xC6, CHR 0xC7,
      CHR 0xC8, CHR 0xC9, CHR 0xCA, CHR 0xCB, CHR 0xCC, CHR 0xCD, CHR 0xCE, CHR 0xCF,
      CHR 0xD0, CHR 0xD1, CHR 0xD2, CHR 0xD3, CHR 0xD4, CHR 0xD5, CHR 0xD6, CHR 0xD8,
      CHR 0xD9, CHR 0xDA, CHR 0xDB, CHR 0xDC, CHR 0xDD, CHR 0xDE]"

definition lower_chars :: string where
  "lower_chars = ''abcdefghijklmnopqrstuvwxyz'' @
     [CHR 0xE0, CHR 0xE1, CHR 0xE2, CHR 0xE3, CHR 0xE4, CHR 0xE5, CHR 0xE6, CHR 0xE7,
      CHR 0xE8, CHR 0xE9, CHR 0xEA, CHR 0xEB, CHR 0xEC, CHR 0xED, CHR 0xEE, CHR 0xEF,
      CHR 0xF0, CHR 0xF1, CHR 0xF2, CHR 0xF3, CHR 0xF4, CHR 0xF5, CHR 0xF6, CHR 0xF8,
      CHR 0xF9, CHR 0xFA, CHR 0xFB, CHR 0xFC, CHR 0xFD, CHR 0xFE]"

definition lower_char :: "char \<Rightarrow> char" where
  "lower_char c = (case map_of (zip upper_chars lower_chars) c of Some d \<Rightarrow> d | None \<Rightarrow> c)"

definition toLowerCase :: "string \<Rightarrow> string" where
  "toLowerCase s = map lower_char s"

text \<open>
  \<open>parseInt(s, 10)\<close>: skip leading white space, read an optional sign, then the longest
  run of decimal digits; \<open>None\<close> is \<open>NaN\<close> (no digit at all).
\<close>

definition digit_val :: "char \<Rightarrow> int option" where
  "digit_val c = map_of (zip ''0123456789'' [0, 1, 2, 3, 4, 5, 6, 7, 8, 9]) c"

definition is_digit :: "char \<Rightarrow> bool" where
  "is_digit c \<longleftrightarrow> digit_val c \<noteq> None"

definition digits_value :: "string \<Rightarrow> int" where
  "digits_value ds = foldl (\<lambda>acc c. 10 * acc + the (digit_val c)) 0 ds"

definition parseInt10 :: "string \<Rightarrow> int option" where
  "parseInt10 s =
     (let t = dropWhile StrWhiteSpaceChar s;
          neg = (case t of c # _ \<Rightarrow> c = CHR ''-'' | [] \<Rightarrow> False);
          u = (case t of c # r \<Rightarrow> if c = CHR ''-'' \<or> c = CHR ''+'' then r else t | [] \<Rightarrow> t);
          ds = takeWhile is_digit u
      in if ds = [] then None
         else Some (if neg then - digits_value ds else digits_value ds))"

text \<open>
  An \<open>ObjectId\<close> is held by its 24 lower-case hexadecimal digits (\<open>toHexString\<close>); two
  identifiers are equal in the store exactly when these digits are.
\<close>

datatype ObjectId = ObjectId (toHexString: string)

datatype jsval =
    JUndefined
  | JNull
  | JBool bool
  | JNum int
  | JNaN
  | JStr string
  | JOid ObjectId
  | JArr "jsval list"
  | JObj "(string \<times> jsval) list"

text \<open>
  Numbers are modelled by the integers and \<open>NaN\<close>; the handlers below only test a number
  for being zero, compare it with a bound or add products of integers.
\<close>

fun truthy :: "jsval \<Rightarrow> bool" where
  "truthy JUndefined = False"
| "truthy JNull = False"
| "truthy (JBool b) = b"
| "truthy (JNum n) = (n \<noteq> 0)"
| "truthy JNaN = False"
| "truthy (JStr s) = (s \<noteq> [])"
| "truthy (JOid _) = True"
| "truthy (JArr _) = True"
| "truthy (JObj _) = True"

text \<open>An object is a finite map from property names; an absent property reads \<open>undefined\<close>.\<close>

type_synonym jsobject = "string \<rightharpoonup> jsval"

definition getprop :: "jsobject \<Rightarrow> string \<Rightarrow> jsval" where
  "getprop obj k = (case obj k of None \<Rightarrow> JUndefined | Some v \<Rightarrow> v)"

section \<open>lib/mongo.js: identifier resolution\<close>

text \<open>
  What a request sees of its surroundings: the clock (\<open>new Date()\<close>, in milliseconds) and
  the identifiers the driver generates, \<open>fresh env k\<close> being the k-th one of the request.
\<close>

record env =
  now :: int
  fresh :: "nat \<Rightarrow> ObjectId"

definition is_hex :: "char \<Rightarrow> bool" where
  "is_hex c \<longleftrightarrow> c \<in> set ''0123456789abcdefABCDEF''"

text \<open>The pattern \<open>/^[0-9a-fA-F]{24}$/\<close>, used by the driver and by the request schemas.\<close>

definition hex24 :: "string \<Rightarrow> bool" where
  "hex24 s \<longleftrightarrow> length s = 24 \<and> list_all is_hex s"

definition wf_oid :: "ObjectId \<Rightarrow> bool" where
  "wf_oid x \<longleftrightarrow>
     length (toHexString x) = 24 \<and> list_all (\<lambda>c. c \<in> set ''0123456789abcdef'') (toHexString x)"

datatype BSONError = BSONError

text \<open>
  The constructor \<open>new ObjectId(v)\<close> of the driver (package bson), which lib/mongo.js and
  lib/roles.js call. A string must be 24 hexadecimal digits; \<open>undefined\<close>, \<open>null\<close> and a
  number make the driver generate a new identifier; an identifier is copied; an object
  with a string property \<open>id\<close> is read through that string; everything else throws.
  (Versions of the package before 5 also take a string of 12 characters as 12 bytes; no
  statement below is about such a string.)
\<close>

definition ObjectId_of_string :: "string \<Rightarrow> BSONError + ObjectId" where
  "ObjectId_of_string s = (if hex24 s then Inr (ObjectId (toLowerCase s)) else Inl BSONError)"

fun ObjectId_new :: "env \<Rightarrow> jsval \<Rightarrow> BSONError + ObjectId" where
  "ObjectId_new e JUndefined = Inr (fresh e 0)"
| "ObjectId_new e JNull = Inr (fresh e 0)"
| "ObjectId_new e (JNum n) = Inr (fresh e 0)"
| "ObjectId_new e JNaN = Inr (fresh e 0)"
| "ObjectId_new e (JStr s) = ObjectId_of_string s"
| "ObjectId_new e (JOid x) = Inr x"
| "ObjectId_new e (JBool b) = Inl BSONError"
| "ObjectId_new e (JArr xs) = Inl BSONError"
| "ObjectId_new e (JObj kvs) =
     (case map_of kvs ''id'' of
        Some (JStr s) \<Rightarrow> ObjectId_of_string s
      | _ \<Rightarrow> Inl BSONError)"

text \<open>\<open>oidMaybe\<close>: \<open>try { return new ObjectId(id) } catch { return null }\<close>; \<open>None\<close> is \<open>null\<close>.\<close>

definition oidMaybe :: "env \<Rightarrow> jsval \<Rightarrow> ObjectId option" where
  "oidMaybe e v = (case ObjectId_new e v of Inr x \<Rightarrow> Some x | Inl _ \<Rightarrow> None)"

section \<open>lib/roles.js\<close>

definition ROLE_NAMES :: "string list" where
  "ROLE_NAMES = [''Administrador'', ''Odontologo'', ''Asistente'', ''Laboratorista'']"

text \<open>
  A document of the collection \<open>roles\<close>. \<open>descripcion\<close> is \<open>None\<close> when it is \<open>null\<close>; an
  absent or empty \<open>nombre\<close> is the empty string (both are falsy and match no role name).
\<close>

record role =
  role_id :: ObjectId
  nombre :: string
  descripcion :: "string option"
  permisos :: "string list"

text \<open>\<open>collection.findOne(filter)\<close>: the first document, in natural order, that matches.\<close>

definition findOne :: "('d \<Rightarrow> bool) \<Rightarrow> 'd list \<Rightarrow> 'd option" where
  "findOne P ds = find P ds"

text \<open>
  The helper \<open>parseOid\<close> inside \<open>normalizeRole\<close>: the constructor is only reached with a
  string; an identifier is returned as it is; anything else, and a throw, give \<open>null\<close>.
\<close>

fun parseOid :: "jsval \<Rightarrow> ObjectId option" where
  "parseOid (JStr s) = (case ObjectId_of_string s of Inr x \<Rightarrow> Some x | Inl _ \<Rightarrow> None)"
| "parseOid (JOid x) = Some x"
| "parseOid _ = None"

definition normalizeRole :: "role list \<Rightarrow> jsobject \<Rightarrow> jsobject" where
  "normalizeRole roles payload =
     (let out = payload; rol = getprop out ''rol''; rol_id = getprop out ''rol_id'' in
      if truthy rol_id \<and> \<not> truthy rol then
        (case parseOid rol_id of
           Some rid \<Rightarrow>
             (case findOne (\<lambda>r. role_id r = rid) roles of
                Some r \<Rightarrow> if nombre r \<noteq> [] then out(''rol'' \<mapsto> JStr (nombre r)) else out
              | None \<Rightarrow> out)
         | None \<Rightarrow> out)
      else if truthy rol \<and> \<not> truthy rol_id then
        (if rol \<notin> set (map JStr ROLE_NAMES) then out
         else (case findOne (\<lambda>r. JStr (nombre r) = rol) roles of
                 Some r \<Rightarrow> out(''rol_id'' \<mapsto> JOid (role_id r))
               | None \<Rightarrow> out))
      else if truthy rol \<and> truthy rol_id then
        (case (case parseOid rol_id of
                 Some rid \<Rightarrow> findOne (\<lambda>r. role_id r = rid) roles
               | None \<Rightarrow> None) of
           Some rById \<Rightarrow>
             if nombre rById \<noteq> [] \<and> JStr (nombre rById) \<noteq> rol
             then out(''rol'' \<mapsto> JStr (nombre rById)) else out
         | None \<Rightarrow>
             if rol \<in> set (map JStr ROLE_NAMES) then
               (case findOne (\<lambda>r. JStr (nombre r) = rol) roles of
                  Some rByName \<Rightarrow> out(''rol_id'' \<mapsto> JOid (role_id rByName))
                | None \<Rightarrow> out)
             else out)
      else out)"

text \<open>
  \<open>ensureRolesSeed\<close>: nothing when the collection counts a document; otherwise
  \<open>insertMany\<close> of one document per role name, the driver giving each its identifier.
\<close>

definition seed_descripcion :: "string \<Rightarrow> string" where
  "seed_descripcion n =
     (if n = ''Administrador'' then ''Gesti'' @ [CHR 0xF3] @ ''n del sistema''
      else if n = ''Odontologo'' then ''Atenci'' @ [CHR 0xF3] @ ''n cl'' @ [CHR 0xED] @ ''nica''
      else if n = ''Asistente'' then ''Apoyo a operaci'' @ [CHR 0xF3] @ ''n''
      else ''Laboratorio'')"

definition seed_docs :: "env \<Rightarrow> role list" where
  "seed_docs e =
     map (\<lambda>(k, n). \<lparr>role_id = fresh e k, nombre = n,
                    descripcion = Some (seed_descripcion n), permisos = []\<rparr>)
         (enumerate 0 ROLE_NAMES)"

definition ensureRolesSeed :: "env \<Rightarrow> role list \<Rightarrow> role list" where
  "ensureRolesSeed e roles = (if length roles > 0 then roles else roles @ seed_docs e)"

section \<open>The document store\<close>

text \<open>
  A collection is the list of its documents in natural order. The operations are those
  of the driver that the handlers call; each returns the counts the driver reports.
\<close>

definition countDocuments :: "('d \<Rightarrow> bool) \<Rightarrow> 'd list \<Rightarrow> nat" where
  "countDocuments P ds = length (filter P ds)"

text \<open>
  \<open>updateOne(filter, update)\<close>: the first matching document is replaced by its update;
  the result is \<open>(matchedCount, modifiedCount)\<close> and the collection afterwards.
\<close>

fun updateOne :: "('d \<Rightarrow> bool) \<Rightarrow> ('d \<Rightarrow> 'd) \<Rightarrow> 'd list \<Rightarrow> (nat \<times> nat) \<times> 'd list" where
  "updateOne P f [] = ((0, 0), [])"
| "updateOne P f (d # ds) =
     (if P d then ((1, if f d = d then 0 else 1), f d # ds)
      else (case updateOne P f ds of (r, ds') \<Rightarrow> (r, d # ds')))"

text \<open>\<open>deleteOne(filter)\<close>: the first matching document is removed; \<open>deletedCount\<close>.\<close>

fun deleteOne :: "('d \<Rightarrow> bool) \<Rightarrow> 'd list \<Rightarrow> nat \<times> 'd list" where
  "deleteOne P [] = (0, [])"
| "deleteOne P (d # ds) =
     (if P d then (1, ds) else (case deleteOne P ds of (n, ds') \<Rightarrow> (n, d # ds')))"

text \<open>
  The update operators on an array field whose elements are documents; \<open>None\<close> is a
  \<open>null\<close> element. \<open>$unset\<close> of \<open>field.i\<close> puts \<open>null\<close> at position \<open>i\<close> and does nothing when
  there is no such position; \<open>$pull: null\<close> removes every \<open>null\<close>; \<open>$set\<close> of \<open>field.i\<close>
  writes position \<open>i\<close>, filling with \<open>null\<close> up to it when the array is shorter;
  \<open>$push: {$each}\<close> appends.
\<close>

definition unset_index :: "'a option list \<Rightarrow> nat \<Rightarrow> 'a option list" where
  "unset_index xs i = (if i < length xs then xs[i := None] else xs)"

definition pull_null :: "'a option list \<Rightarrow> 'a option list" where
  "pull_null xs = filter (\<lambda>x. x \<noteq> None) xs"

definition set_index :: "'a option list \<Rightarrow> nat \<Rightarrow> 'a \<Rightarrow> 'a option list" where
  "set_index xs i v =
     (if i < length xs then xs[i := Some v]
      else xs @ replicate (i - length xs) None @ [Some v])"

definition push_each :: "'a option list \<Rightarrow> 'a list \<Rightarrow> 'a option list" where
  "push_each xs vs = xs @ map Some vs"

text \<open>
  \<open>(arr || [])[idx]\<close> followed by the test \<open>!curr\<close>: \<open>None\<close> when the position does not
  exist or holds \<open>null\<close> (a document is always truthy).
\<close>

definition element_at :: "'a option list \<Rightarrow> nat \<Rightarrow> 'a option" where
  "element_at xs i = (if i < length xs then xs ! i else None)"

subsection \<open>Documents\<close>

text \<open>
  A line item of an appointment; \<open>procedimiento_id\<close> is the legacy reference. Amounts
  are integers (on which the arithmetic of the source's numbers is exact below \<open>2^53\<close>).
\<close>

record linea =
  procedimiento_id :: "ObjectId option"
  l_nombre :: string
  costo_unitario :: int
  cantidad :: int

record cita =
  cita_id :: ObjectId
  fecha :: int
  paciente_id :: string
  usuario_id :: ObjectId
  estado :: string
  motivo :: "string option"
  procedimientos :: "linea list"
  total :: int
  createdAt :: int
  updatedAt :: int

record procedimiento =
  proc_id :: ObjectId
  tipo_procedimiento :: string
  costo :: int
  activo :: bool

record proc_realizado =
  tratamiento :: string
  pr_fecha :: int
  odontologo :: "string option"
  resultado :: "string option"

text \<open>
  A clinical history; an absent array reads as the empty one (\<open>|| []\<close>), and the
  operators used on it leave an absent array absent.
\<close>

record historia =
  historia_id :: ObjectId
  h_paciente_id :: string
  procedimientos_realizados :: "proc_realizado option list"
  h_updatedAt :: int

text \<open>A stored product; \<open>especificaciones\<close> is \<open>None\<close> when it is \<open>null\<close>.\<close>

record producto =
  tipo_producto :: string
  especificaciones :: "string option"
  p_cantidad :: int

record orden =
  orden_id :: ObjectId
  o_cita_id :: ObjectId
  o_usuario_id :: ObjectId
  fecha_creacion :: int
  o_estado :: string
  observaciones :: jsval
  productos :: "producto option list"
  o_updatedAt :: int

text \<open>The collections; a user is kept as the object that was inserted.\<close>

record db =
  col_roles :: "role list"
  col_usuarios :: "jsobject list"
  col_citas :: "cita list"
  col_procedimientos :: "procedimiento list"
  col_historias_clinicas :: "historia list"
  col_ordenes_laboratorio :: "orden list"

subsection \<open>Responses\<close>

datatype failure =
    IdInvalido
  | UsuarioIdInvalido
  | IndexInvalido
  | Lanzado
  | NoEncontrado
  | CitaNoEncontrada
  | HistoriaNoEncontrada
  | OrdenNoEncontrada
  | IndiceFueraDeRango
  | ProcedimientoReferenciado nat
  | RolAsignado nat nat nat

text \<open>
  \<open>Lanzado\<close> is any error caught by the handler's \<open>catch\<close> and answered with its message
  (a schema rejection, an invalid date). \<open>ProcedimientoReferenciado refs\<close> is the message
  that names \<open>refs\<close> appointments; \<open>RolAsignado inUse byId byString\<close> is the message that
  names \<open>inUse\<close> users together with \<open>inUseBy: {byId, byString}\<close>.
\<close>

datatype body =
    Failure failure
  | Created ObjectId int
  | Modified nat
  | Deleted nat
  | DeletedFlag bool

datatype response = Response (status: int) (body: body)

fun ok :: "response \<Rightarrow> bool" where
  "ok (Response _ (Failure _)) = False"
| "ok (Response _ _) = True"

section \<open>routes/citas.js\<close>

text \<open>
  The handlers are modelled from the JSON body after typing: a required field is present
  with its JSON type, an optional one is \<open>None\<close> when absent. Every constraint of the
  schemas on such a body is checked by the \<open>parse\<close> functions, \<open>None\<close> being the throw
  that the handler's \<open>catch\<close> turns into status 400.
\<close>

definition ESTADOS :: "string list" where
  "ESTADOS = [''Pendiente'', ''Confirmada'', ''Cancelada'', ''Completada'']"

text \<open>A line item of a request: \<open>cantidad\<close> may be absent.\<close>

record proc_in =
  in_nombre :: string
  in_costo_unitario :: int
  in_cantidad :: "int option"

text \<open>
  \<open>normalizeProcs\<close>: each item is rebuilt from its trimmed name, its cost and its quantity
  (1 when absent), and the items with an empty name, a negative cost or a quantity below
  1 are dropped.
\<close>

definition normalizeProcs :: "proc_in list \<Rightarrow> linea list" where
  "normalizeProcs arr =
     filter (\<lambda>p. l_nombre p \<noteq> [] \<and> costo_unitario p \<ge> 0 \<and> cantidad p \<ge> 1)
       (map (\<lambda>p. \<lparr>procedimiento_id = None, l_nombre = trim (in_nombre p),
                   costo_unitario = in_costo_unitario p,
                   cantidad = (case in_cantidad p of Some q \<Rightarrow> q | None \<Rightarrow> 1)\<rparr>) arr)"

text \<open>\<open>computeTotal\<close>: \<open>reduce\<close> from 0, adding cost times quantity.\<close>

definition computeTotal :: "linea list \<Rightarrow> int" where
  "computeTotal procs = foldl (\<lambda>acc p. acc + costo_unitario p * cantidad p) 0 procs"

text \<open>The schema \<open>Proc\<close>: a non-empty name, a cost of at least 0, a quantity of at least 1 that defaults to 1.\<close>

definition Proc_parse :: "proc_in \<Rightarrow> proc_in option" where
  "Proc_parse p =
     (let q = (case in_cantidad p of Some q \<Rightarrow> q | None \<Rightarrow> 1) in
      if in_nombre p \<noteq> [] \<and> in_costo_unitario p \<ge> 0 \<and> q \<ge> 1
      then Some (p\<lparr>in_cantidad := Some q\<rparr>) else None)"

fun parse_all :: "('a \<Rightarrow> 'b option) \<Rightarrow> 'a list \<Rightarrow> 'b list option" where
  "parse_all f [] = Some []"
| "parse_all f (x # xs) =
     (case f x of
        None \<Rightarrow> None
      | Some y \<Rightarrow> (case parse_all f xs of None \<Rightarrow> None | Some ys \<Rightarrow> Some (y # ys)))"

text \<open>The body of \<open>POST /api/citas\<close>; \<open>cb_fecha\<close> is \<open>None\<close> when the date cannot be read.\<close>

record cita_body =
  cb_fecha :: "int option"
  cb_paciente_id :: string
  cb_usuario_id :: string
  cb_estado :: "string option"
  cb_motivo :: "string option"
  cb_procedimientos :: "proc_in list option"
  cb_total :: "int option"

text \<open>
  What \<open>CitaCreate.parse\<close> returns. \<open>cp_total\<close> is the property \<open>parsed.total\<close>: the schema
  declares it \<open>.optional().default(0)\<close>, so it is 0 when the body has no total.
\<close>

record cita_parsed =
  cp_fecha :: int
  cp_paciente_id :: string
  cp_usuario_id :: string
  cp_estado :: "string option"
  cp_motivo :: "string option"
  cp_procedimientos :: "proc_in list option"
  cp_total :: "int option"

definition CitaCreate_parse :: "cita_body \<Rightarrow> cita_parsed option" where
  "CitaCreate_parse b =
     (case cb_fecha b of
        None \<Rightarrow> None
      | Some f \<Rightarrow>
        (case (case cb_procedimientos b of
                 None \<Rightarrow> Some None
               | Some ps \<Rightarrow> map_option Some (parse_all Proc_parse ps)) of
           None \<Rightarrow> None
         | Some procs \<Rightarrow>
             let t = (case cb_total b of None \<Rightarrow> 0 | Some t \<Rightarrow> t) in
             if cb_paciente_id b \<noteq> [] \<and> hex24 (cb_usuario_id b)
                \<and> (case cb_estado b of None \<Rightarrow> True | Some s \<Rightarrow> s \<in> set ESTADOS)
                \<and> t \<ge> 0
             then Some \<lparr>cp_fecha = f, cp_paciente_id = cb_paciente_id b,
                         cp_usuario_id = cb_usuario_id b, cp_estado = cb_estado b,
                         cp_motivo = cb_motivo b, cp_procedimientos = procs,
                         cp_total = Some t\<rparr>
             else None))"

text \<open>\<open>s?.trim() || null\<close>\<close>

definition trim_or_null :: "string option \<Rightarrow> string option" where
  "trim_or_null m = (case m of None \<Rightarrow> None | Some s \<Rightarrow> if trim s = [] then None else Some (trim s))"

text \<open>\<open>insertOne(doc)\<close>: the driver gives the document its identifier and appends it.\<close>

definition post_cita :: "env \<Rightarrow> db \<Rightarrow> cita_body \<Rightarrow> response \<times> db" where
  "post_cita e d b =
     (case CitaCreate_parse b of
        None \<Rightarrow> (Response 400 (Failure Lanzado), d)
      | Some parsed \<Rightarrow>
        (case ObjectId_new e (JStr (trim (cp_usuario_id parsed))) of
           Inl _ \<Rightarrow> (Response 400 (Failure Lanzado), d)
         | Inr usuarioOid \<Rightarrow>
             let procs = normalizeProcs (case cp_procedimientos parsed of Some ps \<Rightarrow> ps | None \<Rightarrow> []);
                 totalCalc = computeTotal procs;
                 doc = \<lparr>cita_id = fresh e 0,
                        fecha = cp_fecha parsed,
                        paciente_id = trim (cp_paciente_id parsed),
                        usuario_id = usuarioOid,
                        estado = (case cp_estado parsed of Some s \<Rightarrow> s | None \<Rightarrow> ''Pendiente''),
                        motivo = trim_or_null (cp_motivo parsed),
                        procedimientos = procs,
                        total = (case cp_total parsed of Some t \<Rightarrow> t | None \<Rightarrow> totalCalc),
                        createdAt = now e,
                        updatedAt = now e\<rparr>
             in (Response 201 (Created (cita_id doc) (total doc)),
                 d\<lparr>col_citas := col_citas d @ [doc]\<rparr>)))"

text \<open>
  The body of \<open>PATCH /api/citas/:id\<close>. A date is absent, unreadable or read; the schema
  \<open>CitaPatch\<close> has no default for \<open>total\<close> and wants at least one key.
\<close>

datatype fecha_in = FechaAusente | FechaInvalida | Fecha int

record cita_patch =
  cq_fecha :: fecha_in
  cq_paciente_id :: "string option"
  cq_usuario_id :: "string option"
  cq_estado :: "string option"
  cq_motivo :: "string option"
  cq_procedimientos :: "proc_in list option"
  cq_total :: "int option"

definition CitaPatch_parse :: "cita_patch \<Rightarrow> cita_patch option" where
  "CitaPatch_parse b =
     (case (case cq_procedimientos b of
              None \<Rightarrow> Some None
            | Some ps \<Rightarrow> map_option Some (parse_all Proc_parse ps)) of
        None \<Rightarrow> None
      | Some procs \<Rightarrow>
          if cq_fecha b \<noteq> FechaInvalida
             \<and> (case cq_paciente_id b of None \<Rightarrow> True | Some s \<Rightarrow> s \<noteq> [])
             \<and> (case cq_usuario_id b of None \<Rightarrow> True | Some s \<Rightarrow> hex24 s)
             \<and> (case cq_estado b of None \<Rightarrow> True | Some s \<Rightarrow> s \<in> set ESTADOS)
             \<and> (case cq_total b of None \<Rightarrow> True | Some t \<Rightarrow> t \<ge> 0)
             \<and> (cq_fecha b \<noteq> FechaAusente \<or> cq_paciente_id b \<noteq> None \<or> cq_usuario_id b \<noteq> None
                  \<or> cq_estado b \<noteq> None \<or> cq_motivo b \<noteq> None \<or> cq_procedimientos b \<noteq> None
                  \<or> cq_total b \<noteq> None)
          then Some (b\<lparr>cq_procedimientos := procs\<rparr>) else None)"

text \<open>The \<open>$set\<close> that the handler builds from the parsed patch, as a function on the document.\<close>

definition cita_set :: "env \<Rightarrow> cita_patch \<Rightarrow> ObjectId option \<Rightarrow> cita \<Rightarrow> cita" where
  "cita_set e parsed usuarioOid c =
     (let c1 = c\<lparr>updatedAt := now e\<rparr>;
          c2 = (case cq_fecha parsed of Fecha f \<Rightarrow> c1\<lparr>fecha := f\<rparr> | _ \<Rightarrow> c1);
          c3 = (case cq_paciente_id parsed of
                  Some s \<Rightarrow> if s \<noteq> [] then c2\<lparr>paciente_id := trim s\<rparr> else c2
                | None \<Rightarrow> c2);
          c4 = (case usuarioOid of Some u \<Rightarrow> c3\<lparr>usuario_id := u\<rparr> | None \<Rightarrow> c3);
          c5 = (case cq_estado parsed of
                  Some s \<Rightarrow> if s \<noteq> [] then c4\<lparr>estado := s\<rparr> else c4
                | None \<Rightarrow> c4);
          c6 = (case cq_motivo parsed of
                  Some s \<Rightarrow> c5\<lparr>motivo := trim_or_null (Some s)\<rparr>
                | None \<Rightarrow> c5);
          procs = map_option normalizeProcs (cq_procedimientos parsed);
          c7 = (case procs of Some ps \<Rightarrow> c6\<lparr>procedimientos := ps\<rparr> | None \<Rightarrow> c6)
      in (case cq_total parsed of
            Some t \<Rightarrow> c7\<lparr>total := t\<rparr>
          | None \<Rightarrow> (case procs of Some ps \<Rightarrow> c7\<lparr>total := computeTotal ps\<rparr> | None \<Rightarrow> c7)))"

definition patch_cita :: "env \<Rightarrow> db \<Rightarrow> string \<Rightarrow> cita_patch \<Rightarrow> response \<times> db" where
  "patch_cita e d ident b =
     (case oidMaybe e (JStr ident) of
        None \<Rightarrow> (Response 400 (Failure IdInvalido), d)
      | Some oid \<Rightarrow>
        (case CitaPatch_parse b of
           None \<Rightarrow> (Response 400 (Failure Lanzado), d)
         | Some parsed \<Rightarrow>
           (case (case cq_usuario_id parsed of
                    Some s \<Rightarrow> if s \<noteq> [] then map_option Some (oidMaybe e (JStr s)) else Some None
                  | None \<Rightarrow> Some None) of
              None \<Rightarrow> (Response 400 (Failure UsuarioIdInvalido), d)
            | Some usuarioOid \<Rightarrow>
              (case updateOne (\<lambda>c. cita_id c = oid) (cita_set e parsed usuarioOid) (col_citas d) of
                 ((matched, modified), cs) \<Rightarrow>
                   if matched = 0 then (Response 404 (Failure CitaNoEncontrada), d)
                   else (Response 200 (Modified modified), d\<lparr>col_citas := cs\<rparr>)))))"

section \<open>routes/roles.js and routes/procedimientos.js: deletion behind a reference count\<close>

text \<open>
  A value of \<open>req.query\<close>: a string, an array (a repeated key) or an object (a key with
  brackets). \<open>String(v)\<close> joins an array with commas and prints an object as
  \<open>[object Object]\<close>.
\<close>

datatype qsval = QStr string | QArr "qsval list" | QObj "(string \<times> qsval) list"

fun join_comma :: "string list \<Rightarrow> string" where
  "join_comma [] = []"
| "join_comma [s] = s"
| "join_comma (s # t # ss) = s @ '','' @ join_comma (t # ss)"

fun String_of :: "qsval \<Rightarrow> string" where
  "String_of (QStr s) = s"
| "String_of (QArr xs) = join_comma (map String_of xs)"
| "String_of (QObj kvs) = ''[object Object]''"

type_synonym query = "string \<rightharpoonup> qsval"

text \<open>\<open>parseBool\<close>; \<open>None\<close> as argument is an absent key, \<open>None\<close> as result is \<open>null\<close>.\<close>

definition parseBool :: "qsval option \<Rightarrow> bool option" where
  "parseBool v =
     (case v of
        None \<Rightarrow> None
      | Some raw \<Rightarrow>
          let s = toLowerCase (trim (String_of raw)) in
          if s \<in> set [''1'', ''true'', ''t'', ''yes'', ''y''] then Some True
          else if s \<in> set [''0'', ''false'', ''f'', ''no'', ''n''] then Some False
          else None)"

text \<open>
  A filter \<open>{field: value}\<close> of the store matches a document whose field is the value,
  or is an array with the value among its elements.
\<close>

definition field_matches :: "jsval \<Rightarrow> jsval \<Rightarrow> bool" where
  "field_matches fv qv \<longleftrightarrow> fv = qv \<or> (case fv of JArr xs \<Rightarrow> qv \<in> set xs | _ \<Rightarrow> False)"

text \<open>
  \<open>DELETE /api/roles/:id\<close>. The handler reads \<open>req.params.id\<close> only; the query string of
  the request is a parameter of the model that the handler never looks at.
\<close>

definition delete_role :: "env \<Rightarrow> db \<Rightarrow> string \<Rightarrow> query \<Rightarrow> response \<times> db" where
  "delete_role e d ident query =
     (case oidMaybe e (JStr ident) of
        None \<Rightarrow> (Response 400 (Failure IdInvalido), d)
      | Some oid \<Rightarrow>
        (case findOne (\<lambda>r. role_id r = oid) (col_roles d) of
           None \<Rightarrow> (Response 404 (Failure NoEncontrado), d)
         | Some role \<Rightarrow>
             let byId = countDocuments (\<lambda>u. field_matches (getprop u ''rol_id'') (JOid oid))
                            (col_usuarios d);
                 byString = countDocuments (\<lambda>u. field_matches (getprop u ''rol'') (JStr (nombre role)))
                                (col_usuarios d);
                 inUse = byId + byString
             in if inUse > 0 then (Response 409 (Failure (RolAsignado inUse byId byString)), d)
                else (case deleteOne (\<lambda>r. role_id r = oid) (col_roles d) of
                        (n, rs) \<Rightarrow> (Response 200 (Deleted n), d\<lparr>col_roles := rs\<rparr>))))"

text \<open>
  \<open>DELETE /api/procedimientos/:id\<close>: \<open>refs\<close> counts the appointments with a line item
  whose \<open>procedimiento_id\<close> is the identifier; \<open>!force\<close> holds for \<open>null\<close> and for \<open>false\<close>.
\<close>

definition delete_procedimiento :: "env \<Rightarrow> db \<Rightarrow> string \<Rightarrow> query \<Rightarrow> response \<times> db" where
  "delete_procedimiento e d ident query =
     (case oidMaybe e (JStr ident) of
        None \<Rightarrow> (Response 400 (Failure IdInvalido), d)
      | Some oid \<Rightarrow>
          let force = parseBool (query ''force'');
              refs = countDocuments
                       (\<lambda>c. list_ex (\<lambda>p. procedimiento_id p = Some oid) (procedimientos c))
                       (col_citas d)
          in if refs > 0 \<and> force \<noteq> Some True
             then (Response 409 (Failure (ProcedimientoReferenciado refs)), d)
             else (case deleteOne (\<lambda>p. proc_id p = oid) (col_procedimientos d) of
                     (n, ps) \<Rightarrow>
                       if n = 0 then (Response 404 (Failure NoEncontrado), d)
                       else (Response 200 (Deleted n), d\<lparr>col_procedimientos := ps\<rparr>)))"

section \<open>routes/historias.js: performed procedures by index\<close>

text \<open>The body of the patch of one procedure (schema \<open>ProcPatch\<close>).\<close>

record proc_patch =
  pp_tratamiento :: "string option"
  pp_fecha :: fecha_in
  pp_odontologo :: "string option"
  pp_resultado :: "string option"

definition ProcPatch_parse :: "proc_patch \<Rightarrow> proc_patch option" where
  "ProcPatch_parse p =
     (if (case pp_tratamiento p of None \<Rightarrow> True | Some t \<Rightarrow> t \<noteq> [])
         \<and> pp_fecha p \<noteq> FechaInvalida
         \<and> (pp_tratamiento p \<noteq> None \<or> pp_fecha p \<noteq> FechaAusente
              \<or> pp_odontologo p \<noteq> None \<or> pp_resultado p \<noteq> None)
      then Some p else None)"

text \<open>\<open>{...curr, ...patch}\<close>: a key of the patch overrides the stored one.\<close>

definition merge_proc :: "proc_realizado \<Rightarrow> proc_patch \<Rightarrow> proc_realizado" where
  "merge_proc cur patch =
     \<lparr>tratamiento = (case pp_tratamiento patch of Some t \<Rightarrow> t | None \<Rightarrow> tratamiento cur),
      pr_fecha = (case pp_fecha patch of Fecha f \<Rightarrow> f | _ \<Rightarrow> pr_fecha cur),
      odontologo = (case pp_odontologo patch of Some x \<Rightarrow> Some x | None \<Rightarrow> odontologo cur),
      resultado = (case pp_resultado patch of Some x \<Rightarrow> Some x | None \<Rightarrow> resultado cur)\<rparr>"

text \<open>The schema \<open>ProcRealizado\<close> on a merged item: the treatment must not be empty.\<close>

definition ProcRealizado_parse :: "proc_realizado \<Rightarrow> proc_realizado option" where
  "ProcRealizado_parse m = (if tratamiento m \<noteq> [] then Some m else None)"

text \<open>
  \<open>PATCH /api/historias/:paciente_id/procedimientos/:index\<close>. The checks come in the
  order of the source: the index, the body, the history, the element, the merged item.
\<close>

definition patch_procedimiento_realizado ::
  "env \<Rightarrow> db \<Rightarrow> string \<Rightarrow> string \<Rightarrow> proc_patch \<Rightarrow> response \<times> db" where
  "patch_procedimiento_realizado e d paciente index b =
     (case parseInt10 index of
        None \<Rightarrow> (Response 400 (Failure IndexInvalido), d)
      | Some idx \<Rightarrow>
        if idx < 0 then (Response 400 (Failure IndexInvalido), d)
        else
        (case ProcPatch_parse b of
           None \<Rightarrow> (Response 400 (Failure Lanzado), d)
         | Some patch \<Rightarrow>
           (case findOne (\<lambda>h. h_paciente_id h = paciente) (col_historias_clinicas d) of
              None \<Rightarrow> (Response 404 (Failure HistoriaNoEncontrada), d)
            | Some h \<Rightarrow>
              (case element_at (procedimientos_realizados h) (nat idx) of
                 None \<Rightarrow> (Response 404 (Failure IndiceFueraDeRango), d)
               | Some cur \<Rightarrow>
                 (case ProcRealizado_parse (merge_proc cur patch) of
                    None \<Rightarrow> (Response 400 (Failure Lanzado), d)
                  | Some merged \<Rightarrow>
                    (case updateOne (\<lambda>x. historia_id x = historia_id h)
                            (\<lambda>x. x\<lparr>procedimientos_realizados :=
                                       set_index (procedimientos_realizados x) (nat idx) merged,
                                     h_updatedAt := now e\<rparr>)
                            (col_historias_clinicas d) of
                       ((matched, modified), hs) \<Rightarrow>
                         (Response 200 (Modified modified),
                          d\<lparr>col_historias_clinicas := hs\<rparr>)))))))"

text \<open>
  \<open>DELETE /api/historias/:paciente_id/procedimientos/:index\<close>: after the same look-up,
  two updates, \<open>$unset\<close> of the position and then \<open>$pull: null\<close> with the time stamp.
\<close>

definition delete_procedimiento_realizado ::
  "env \<Rightarrow> db \<Rightarrow> string \<Rightarrow> string \<Rightarrow> response \<times> db" where
  "delete_procedimiento_realizado e d paciente index =
     (case parseInt10 index of
        None \<Rightarrow> (Response 400 (Failure IndexInvalido), d)
      | Some idx \<Rightarrow>
        if idx < 0 then (Response 400 (Failure IndexInvalido), d)
        else
        (case findOne (\<lambda>h. h_paciente_id h = paciente) (col_historias_clinicas d) of
           None \<Rightarrow> (Response 404 (Failure HistoriaNoEncontrada), d)
         | Some h \<Rightarrow>
           (case element_at (procedimientos_realizados h) (nat idx) of
              None \<Rightarrow> (Response 404 (Failure IndiceFueraDeRango), d)
            | Some cur \<Rightarrow>
              (case updateOne (\<lambda>x. historia_id x = historia_id h)
                      (\<lambda>x. x\<lparr>procedimientos_realizados :=
                                 unset_index (procedimientos_realizados x) (nat idx)\<rparr>)
                      (col_historias_clinicas d) of
                 (r1, hs1) \<Rightarrow>
                   (case updateOne (\<lambda>x. historia_id x = historia_id h)
                           (\<lambda>x. x\<lparr>procedimientos_realizados :=
                                      pull_null (procedimientos_realizados x),
                                    h_updatedAt := now e\<rparr>)
                           hs1 of
                      ((matched2, modified2), hs2) \<Rightarrow>
                        (Response 200 (DeletedFlag (modified2 > 0)),
                         d\<lparr>col_historias_clinicas := hs2\<rparr>))))))"

section \<open>routes/ordenes_laboratorio.js: the flexible patch\<close>

definition ESTADOS_ORDEN :: "string list" where
  "ESTADOS_ORDEN = [''Pendiente'', ''En producci'' @ [CHR 0xF3] @ ''n'', ''Listo para enviar'',
                    ''Entregada'', ''Rechazada'']"

fun normalizeObservaciones :: "jsval \<Rightarrow> jsval" where
  "normalizeObservaciones JUndefined = JNull"
| "normalizeObservaciones JNull = JNull"
| "normalizeObservaciones (JStr s) = JObj [(''notas'', JStr (trim s))]"
| "normalizeObservaciones (JArr xs) = JObj [(''items'', JArr xs)]"
| "normalizeObservaciones (JObj kvs) = JObj kvs"
| "normalizeObservaciones (JOid x) = JOid x"
| "normalizeObservaciones v = JObj [(''valor'', v)]"

text \<open>A product of a request (schema \<open>Producto\<close>): the quantity defaults to 1.\<close>

record producto_in =
  pi_tipo_producto :: string
  pi_especificaciones :: "string option"
  pi_cantidad :: "int option"

definition Producto_parse :: "producto_in \<Rightarrow> producto_in option" where
  "Producto_parse p =
     (let q = (case pi_cantidad p of Some q \<Rightarrow> q | None \<Rightarrow> 1) in
      if pi_tipo_producto p \<noteq> [] \<and> q > 0 then Some (p\<lparr>pi_cantidad := Some q\<rparr>) else None)"

text \<open>The document that the handler builds from a parsed product.\<close>

definition store_producto :: "producto_in \<Rightarrow> producto" where
  "store_producto p =
     \<lparr>tipo_producto = trim (pi_tipo_producto p),
      especificaciones = map_option trim (pi_especificaciones p),
      p_cantidad = (case pi_cantidad p of Some q \<Rightarrow> q | None \<Rightarrow> 1)\<rparr>"

record producto_parcial =
  pc_tipo_producto :: "string option"
  pc_especificaciones :: "string option"
  pc_cantidad :: "int option"

record producto_patch_op =
  op_index :: int
  op_item :: producto_parcial

text \<open>The body of the patch; \<open>lp_observaciones\<close> is \<open>JUndefined\<close> when the key is absent.\<close>

record orden_patch =
  lp_estado :: "string option"
  lp_observaciones :: jsval
  set_productos :: "producto_in list option"
  push_productos :: "producto_in list option"
  producto_patch :: "producto_patch_op option"
  producto_delete_index :: "int option"

definition parse_productos :: "producto_in list option \<Rightarrow> producto_in list option option" where
  "parse_productos m =
     (case m of
        None \<Rightarrow> Some None
      | Some ps \<Rightarrow> if ps = [] then None else map_option Some (parse_all Producto_parse ps))"

definition OrdenLabPatch_parse :: "orden_patch \<Rightarrow> orden_patch option" where
  "OrdenLabPatch_parse b =
     (case parse_productos (set_productos b) of
        None \<Rightarrow> None
      | Some sp \<Rightarrow>
        (case parse_productos (push_productos b) of
           None \<Rightarrow> None
         | Some pp \<Rightarrow>
             if (case lp_estado b of None \<Rightarrow> True | Some s \<Rightarrow> s \<in> set ESTADOS_ORDEN)
                \<and> (case producto_patch b of
                      None \<Rightarrow> True
                    | Some po \<Rightarrow>
                        op_index po \<ge> 0
                        \<and> (case pc_tipo_producto (op_item po) of None \<Rightarrow> True | Some t \<Rightarrow> t \<noteq> [])
                        \<and> (case pc_cantidad (op_item po) of None \<Rightarrow> True | Some q \<Rightarrow> q > 0))
                \<and> (case producto_delete_index b of None \<Rightarrow> True | Some i \<Rightarrow> i \<ge> 0)
                \<and> (lp_estado b \<noteq> None \<or> lp_observaciones b \<noteq> JUndefined
                     \<or> set_productos b \<noteq> None \<or> push_productos b \<noteq> None
                     \<or> producto_patch b \<noteq> None \<or> producto_delete_index b \<noteq> None)
             then Some (b\<lparr>set_productos := sp, push_productos := pp\<rparr>) else None))"

text \<open>The part of \<open>$set\<close> that every branch shares: state, observations, time stamp.\<close>

definition orden_set :: "env \<Rightarrow> orden_patch \<Rightarrow> orden \<Rightarrow> orden" where
  "orden_set e patch ord =
     ord\<lparr>o_estado := (case lp_estado patch of
                         Some s \<Rightarrow> if s \<noteq> [] then s else o_estado ord
                       | None \<Rightarrow> o_estado ord),
         observaciones := (if lp_observaciones patch \<noteq> JUndefined
                           then normalizeObservaciones (lp_observaciones patch)
                           else observaciones ord),
         o_updatedAt := now e\<rparr>"

definition merge_producto :: "producto \<Rightarrow> producto_parcial \<Rightarrow> producto" where
  "merge_producto cur item =
     \<lparr>tipo_producto = (case pc_tipo_producto item of Some t \<Rightarrow> trim t | None \<Rightarrow> tipo_producto cur),
      especificaciones =
        (case pc_especificaciones item of Some s \<Rightarrow> Some (trim s) | None \<Rightarrow> especificaciones cur),
      p_cantidad = (case pc_cantidad item of Some q \<Rightarrow> q | None \<Rightarrow> p_cantidad cur)\<rparr>"

text \<open>
  \<open>Producto.parse(merged)\<close>: it throws on an empty type, on a quantity below 1 and on
  \<open>especificaciones: null\<close> (the schema allows the key to be absent, not \<open>null\<close>).
\<close>

definition Producto_accepts :: "producto \<Rightarrow> bool" where
  "Producto_accepts m \<longleftrightarrow> tipo_producto m \<noteq> [] \<and> especificaciones m \<noteq> None \<and> p_cantidad m > 0"

definition patch_orden :: "env \<Rightarrow> db \<Rightarrow> string \<Rightarrow> orden_patch \<Rightarrow> response \<times> db" where
  "patch_orden e d ident b =
     (case oidMaybe e (JStr ident) of
        None \<Rightarrow> (Response 400 (Failure IdInvalido), d)
      | Some oid \<Rightarrow>
        (case OrdenLabPatch_parse b of
           None \<Rightarrow> (Response 400 (Failure Lanzado), d)
         | Some patch \<Rightarrow>
           (case set_productos patch of
              Some ps \<Rightarrow>
                (case updateOne (\<lambda>x. orden_id x = oid)
                        (\<lambda>x. orden_set e patch (x\<lparr>productos := map (\<lambda>p. Some (store_producto p)) ps\<rparr>))
                        (col_ordenes_laboratorio d) of
                   ((matched, modified), os) \<Rightarrow>
                     if matched = 0 then (Response 404 (Failure OrdenNoEncontrada), d)
                     else (Response 200 (Modified modified), d\<lparr>col_ordenes_laboratorio := os\<rparr>))
            | None \<Rightarrow>
           (case push_productos patch of
              Some ps \<Rightarrow>
                (case updateOne (\<lambda>x. orden_id x = oid)
                        (\<lambda>x. orden_set e patch
                               (x\<lparr>productos := push_each (productos x) (map store_producto ps)\<rparr>))
                        (col_ordenes_laboratorio d) of
                   ((matched, modified), os) \<Rightarrow>
                     if matched = 0 then (Response 404 (Failure OrdenNoEncontrada), d)
                     else (Response 200 (Modified modified), d\<lparr>col_ordenes_laboratorio := os\<rparr>))
            | None \<Rightarrow>
           (case producto_patch patch of
              Some po \<Rightarrow>
                (case findOne (\<lambda>x. orden_id x = oid) (col_ordenes_laboratorio d) of
                   None \<Rightarrow> (Response 404 (Failure OrdenNoEncontrada), d)
                 | Some doc \<Rightarrow>
                   (case element_at (productos doc) (nat (op_index po)) of
                      None \<Rightarrow> (Response 404 (Failure IndiceFueraDeRango), d)
                    | Some cur \<Rightarrow>
                        let merged = merge_producto cur (op_item po) in
                        if \<not> Producto_accepts merged then (Response 400 (Failure Lanzado), d)
                        else
                        (case updateOne (\<lambda>x. orden_id x = oid)
                                (\<lambda>x. orden_set e patch
                                       (x\<lparr>productos :=
                                            set_index (productos x) (nat (op_index po)) merged\<rparr>))
                                (col_ordenes_laboratorio d) of
                           ((matched, modified), os) \<Rightarrow>
                             (Response 200 (Modified modified),
                              d\<lparr>col_ordenes_laboratorio := os\<rparr>))))
            | None \<Rightarrow>
           (case producto_delete_index patch of
              Some idx \<Rightarrow>
                (case updateOne (\<lambda>x. orden_id x = oid)
                        (\<lambda>x. x\<lparr>productos := unset_index (productos x) (nat idx)\<rparr>)
                        (col_ordenes_laboratorio d) of
                   (r1, os1) \<Rightarrow>
                     (case updateOne (\<lambda>x. orden_id x = oid)
                             (\<lambda>x. orden_set e patch (x\<lparr>productos := pull_null (productos x)\<rparr>))
                             os1 of
                        ((matched2, modified2), os2) \<Rightarrow>
                          (Response 200 (Modified (if modified2 > 0 then 1 else 0)),
                           d\<lparr>col_ordenes_laboratorio := os2\<rparr>)))
            | None \<Rightarrow>
                (case updateOne (\<lambda>x. orden_id x = oid) (orden_set e patch)
                        (col_ordenes_laboratorio d) of
                   ((matched, modified), os) \<Rightarrow>
                     if matched = 0 then (Response 404 (Failure OrdenNoEncontrada), d)
                     else (Response 200 (Modified modified),
                           d\<lparr>col_ordenes_laboratorio := os\<rparr>))))))))"

section \<open>Notions used in the statements\<close>

text \<open>
  The two look-ups of \<open>normalizeRole\<close>, named for the statements below: by the identifier
  (\<open>parseOid\<close>, then \<open>findOne({_id})\<close>) and by the name (\<open>ROLE_NAMES.includes\<close>, then
  \<open>findOne({nombre})\<close>).
\<close>

definition role_by_id :: "role list \<Rightarrow> jsval \<Rightarrow> role option" where
  "role_by_id roles v =
     (case parseOid v of Some rid \<Rightarrow> findOne (\<lambda>r. role_id r = rid) roles | None \<Rightarrow> None)"

definition role_by_name :: "role list \<Rightarrow> jsval \<Rightarrow> role option" where
  "role_by_name roles v =
     (if v \<in> set (map JStr ROLE_NAMES) then findOne (\<lambda>r. JStr (nombre r) = v) roles else None)"

text \<open>
  The specification's reading of an input that can be interpreted as a generated
  identifier: a string of 24 hexadecimal digits, or an identifier itself.
\<close>

definition spec_parses_as_identifier :: "jsval \<Rightarrow> bool" where
  "spec_parses_as_identifier v = (case v of JStr s \<Rightarrow> hex24 s | JOid x \<Rightarrow> True | _ \<Rightarrow> False)"

text \<open>
  The specification's count for the deletion of a role: the users that reference the role,
  by identifier or by name, each user once.
\<close>

definition spec_users_referencing :: "db \<Rightarrow> role \<Rightarrow> nat" where
  "spec_users_referencing d r =
     countDocuments
       (\<lambda>u. field_matches (getprop u ''rol_id'') (JOid (role_id r))
            \<or> field_matches (getprop u ''rol'') (JStr (nombre r)))
       (col_usuarios d)"

text \<open>
  The array of performed procedures in the history of a patient, and the array of
  products of a laboratory order, as a reader of the store finds them.
\<close>

definition procedimientos_of :: "db \<Rightarrow> string \<Rightarrow> proc_realizado option list option" where
  "procedimientos_of d paciente =
     map_option procedimientos_realizados
       (findOne (\<lambda>h. h_paciente_id h = paciente) (col_historias_clinicas d))"

definition productos_of :: "db \<Rightarrow> ObjectId \<Rightarrow> producto option list option" where
  "productos_of d oid =
     map_option productos (findOne (\<lambda>x. orden_id x = oid) (col_ordenes_laboratorio d))"

text \<open>
  A patch of a laboratory order that reaches the branch of \<open>producto_delete_index\<close>, and
  one that reaches the branch of \<open>producto_patch\<close>: the schema accepts the body and no
  earlier branch takes the request.
\<close>

definition delete_index_request :: "orden_patch \<Rightarrow> nat \<Rightarrow> bool" where
  "delete_index_request b j \<longleftrightarrow>
     OrdenLabPatch_parse b \<noteq> None \<and> set_productos b = None \<and> push_productos b = None
     \<and> producto_patch b = None \<and> producto_delete_index b = Some (int j)"

definition merge_patch_request :: "orden_patch \<Rightarrow> nat \<Rightarrow> bool" where
  "merge_patch_request b j \<longleftrightarrow>
     OrdenLabPatch_parse b \<noteq> None \<and> set_productos b = None \<and> push_productos b = None
     \<and> map_option op_index (producto_patch b) = Some (int j)"

text \<open>The stored total and the stored line items of an appointment.\<close>

definition total_of :: "db \<Rightarrow> ObjectId \<Rightarrow> int option" where
  "total_of d oid = map_option total (findOne (\<lambda>c. cita_id c = oid) (col_citas d))"

definition lineas_of :: "db \<Rightarrow> ObjectId \<Rightarrow> linea list option" where
  "lineas_of d oid = map_option procedimientos (findOne (\<lambda>c. cita_id c = oid) (col_citas d))"

subsection \<open>Sample data\<close>

fun sample_fresh :: "nat \<Rightarrow> ObjectId" where
  "sample_fresh k = ObjectId (''65000000000000000000000'' @ [''0123456789abcdef'' ! (k mod 16)])"

definition sample_env :: env where
  "sample_env = \<lparr>now = 1700000000000, fresh = sample_fresh\<rparr>"

definition sample_roles :: "role list" where
  "sample_roles =
     [\<lparr>role_id = ObjectId ''aaaaaaaaaaaaaaaaaaaaaaaa'', nombre = ''Administrador'',
       descripcion = None, permisos = []\<rparr>,
      \<lparr>role_id = ObjectId ''bbbbbbbbbbbbbbbbbbbbbbbb'', nombre = ''Odontologo'',
       descripcion = None, permisos = []\<rparr>]"

definition sample_payload :: "jsval \<Rightarrow> jsval \<Rightarrow> jsobject" where
  "sample_payload r i = [''nombres'' \<mapsto> JStr ''Ana'', ''rol'' \<mapsto> r, ''rol_id'' \<mapsto> i]"

definition empty_db :: db where
  "empty_db = \<lparr>col_roles = [], col_usuarios = [], col_citas = [], col_procedimientos = [],
               col_historias_clinicas = [], col_ordenes_laboratorio = []\<rparr>"

definition sample_cita_body :: cita_body where
  "sample_cita_body =
     \<lparr>cb_fecha = Some 1735689600000, cb_paciente_id = ''123'',
      cb_usuario_id = ''0123456789abcdefABCDEF01'', cb_estado = None, cb_motivo = None,
      cb_procedimientos =
        Some [\<lparr>in_nombre = ''Limpieza'', in_costo_unitario = 50, in_cantidad = Some 2\<rparr>,
              \<lparr>in_nombre = ''Resina'', in_costo_unitario = 30, in_cantidad = Some 1\<rparr>],
      cb_total = None\<rparr>"

text \<open>
  A user as \<open>crearUsuario\<close> stores it when the body names the role only: \<open>normalizeRole\<close>
  has filled \<open>rol_id\<close> with the identifier of the catalog entry.
\<close>

definition sample_usuario :: jsobject where
  "sample_usuario =
     normalizeRole sample_roles [''nombres'' \<mapsto> JStr ''Ana'', ''rol'' \<mapsto> JStr ''Administrador'']"

definition sample_db :: db where
  "sample_db = empty_db\<lparr>col_roles := sample_roles, col_usuarios := [sample_usuario]\<rparr>"

text \<open>A procedure type and one appointment whose legacy line item refers to it.\<close>

definition sample_citas_db :: db where
  "sample_citas_db =
     empty_db
       \<lparr>col_citas :=
          [\<lparr>cita_id = ObjectId ''c1c1c1c1c1c1c1c1c1c1c1c1'', fecha = 1735689600000,
            paciente_id = ''123'', usuario_id = ObjectId ''0123456789abcdefabcdef01'',
            estado = ''Pendiente'', motivo = None,
            procedimientos =
              [\<lparr>procedimiento_id = Some (ObjectId ''eeeeeeeeeeeeeeeeeeeeeeee''),
                l_nombre = ''Limpieza'', costo_unitario = 50, cantidad = 1\<rparr>],
            total = 50, createdAt = 1735689600000, updatedAt = 1735689600000\<rparr>],
        col_procedimientos :=
          [\<lparr>proc_id = ObjectId ''eeeeeeeeeeeeeeeeeeeeeeee'', tipo_procedimiento = ''Limpieza'',
            costo = 50, activo = True\<rparr>]\<rparr>"

definition sample_query_force :: query where
  "sample_query_force = [''force'' \<mapsto> QStr ''1'']"

text \<open>A clinical history with three performed procedures.\<close>

definition sample_realizados :: "proc_realizado option list" where
  "sample_realizados =
     [Some \<lparr>tratamiento = ''Limpieza'', pr_fecha = 1, odontologo = None, resultado = None\<rparr>,
      Some \<lparr>tratamiento = ''Resina'', pr_fecha = 2, odontologo = None, resultado = None\<rparr>,
      Some \<lparr>tratamiento = ''Corona'', pr_fecha = 3, odontologo = None, resultado = None\<rparr>]"

definition sample_historias_db :: db where
  "sample_historias_db =
     empty_db
       \<lparr>col_historias_clinicas :=
          [\<lparr>historia_id = ObjectId ''ffffffffffffffffffffffff'', h_paciente_id = ''123'',
            procedimientos_realizados = sample_realizados, h_updatedAt = 0\<rparr>]\<rparr>"

definition sample_proc_patch :: proc_patch where
  "sample_proc_patch =
     \<lparr>pp_tratamiento = None, pp_fecha = FechaAusente, pp_odontologo = None,
      pp_resultado = Some ''Bien''\<rparr>"

text \<open>A laboratory order with three products, and the two kinds of patch by index.\<close>

definition sample_productos :: "producto option list" where
  "sample_productos =
     [Some \<lparr>tipo_producto = ''Corona'', especificaciones = Some ''A2'', p_cantidad = 1\<rparr>,
      Some \<lparr>tipo_producto = ''Puente'', especificaciones = None, p_cantidad = 2\<rparr>,
      Some \<lparr>tipo_producto = ''Placa'', especificaciones = None, p_cantidad = 1\<rparr>]"

definition sample_ordenes_db :: db where
  "sample_ordenes_db =
     empty_db
       \<lparr>col_ordenes_laboratorio :=
          [\<lparr>orden_id = ObjectId ''dddddddddddddddddddddddd'',
            o_cita_id = ObjectId ''c1c1c1c1c1c1c1c1c1c1c1c1'',
            o_usuario_id = ObjectId ''0123456789abcdefabcdef01'', fecha_creacion = 0,
            o_estado = ''Pendiente'', observaciones = JNull, productos = sample_productos,
            o_updatedAt = 0\<rparr>]\<rparr>"

definition sample_delete_patch :: "int \<Rightarrow> orden_patch" where
  "sample_delete_patch j =
     \<lparr>lp_estado = None, lp_observaciones = JUndefined, set_productos = None,
      push_productos = None, producto_patch = None, producto_delete_index = Some j\<rparr>"

definition sample_item_patch :: "int \<Rightarrow> orden_patch" where
  "sample_item_patch j =
     \<lparr>lp_estado = None, lp_observaciones = JUndefined, set_productos = None,
      push_productos = None,
      producto_patch =
        Some \<lparr>op_index = j,
              op_item = \<lparr>pc_tipo_producto = None, pc_especificaciones = None,
                         pc_cantidad = Some 2\<rparr>\<rparr>,
      producto_delete_index = None\<rparr>"

text \<open>
  An appointment created with the explicit total 999 over line items that add up to 130,
  and two patches of it: one of the state only, one of the line items only.
\<close>

definition sample_override_db :: db where
  "sample_override_db = snd (post_cita sample_env empty_db (sample_cita_body\<lparr>cb_total := Some 999\<rparr>))"

definition sample_estado_patch :: cita_patch where
  "sample_estado_patch =
     \<lparr>cq_fecha = FechaAusente, cq_paciente_id = None, cq_usuario_id = None,
      cq_estado = Some ''Confirmada'', cq_motivo = None, cq_procedimientos = None,
      cq_total = None\<rparr>"

definition sample_items_patch :: cita_patch where
  "sample_items_patch =
     \<lparr>cq_fecha = FechaAusente, cq_paciente_id = None, cq_usuario_id = None,
      cq_estado = None, cq_motivo = None,
      cq_procedimientos =
        Some [\<lparr>in_nombre = ''Corona'', in_costo_unitario = 200, in_cantidad = None\<rparr>,
              \<lparr>in_nombre = ''Resina'', in_costo_unitario = 30, in_cantidad = Some 3\<rparr>],
      cq_total = None\<rparr>"

section \<open>Identifier resolution\<close>

lemma lower_hex_table:
  "\<forall>c \<in> set ''0123456789abcdefABCDEF''. lower_char c \<in> set ''0123456789abcdef''"
  by code_simp

lemma lower_hex: "is_hex c \<Longrightarrow> lower_char c \<in> set ''0123456789abcdef''"
  unfolding is_hex_def by (rule bspec [OF lower_hex_table])

lemma wf_oid_of_hex: "hex24 s \<Longrightarrow> wf_oid (ObjectId (toLowerCase s))"
  unfolding hex24_def wf_oid_def toLowerCase_def list_all_iff
  by (simp only: ObjectId.sel length_map set_map) (blast intro: lower_hex)

lemma sample_hex: "hex24 ''aaaaaaaaaaaaaaaaaaaaaaaa''" "hex24 ''cccccccccccccccccccccccc''"
  by code_simp+

text \<open>
  What the two resolvers return on every input. Neither throws: the constructor's throw
  is caught. \<open>parseOid\<close> returns a handle exactly for a string of 24 hexadecimal digits and
  for an identifier; \<open>oidMaybe\<close> has no test of the type before the constructor, and so
  also returns a handle for \<open>undefined\<close>, \<open>null\<close>, a number and an object whose \<open>id\<close> is
  such a string.
\<close>

lemma oidMaybe_every_input:
  "oidMaybe e v =
     (case v of
        JStr s \<Rightarrow> if hex24 s then Some (ObjectId (toLowerCase s)) else None
      | JOid x \<Rightarrow> Some x
      | JUndefined \<Rightarrow> Some (fresh e 0)
      | JNull \<Rightarrow> Some (fresh e 0)
      | JNum n \<Rightarrow> Some (fresh e 0)
      | JNaN \<Rightarrow> Some (fresh e 0)
      | JObj kvs \<Rightarrow>
          (case map_of kvs ''id'' of
             Some (JStr s) \<Rightarrow> if hex24 s then Some (ObjectId (toLowerCase s)) else None
           | _ \<Rightarrow> None)
      | _ \<Rightarrow> None)"
  by (cases v) (simp_all add: oidMaybe_def ObjectId_of_string_def split: option.split jsval.split)

lemma parseOid_every_input: "(parseOid v \<noteq> None) = spec_parses_as_identifier v"
  by (cases v) (auto simp: ObjectId_of_string_def spec_parses_as_identifier_def)

lemma oidMaybe_on_strings:
  "oidMaybe e (JStr s) = parseOid (JStr s)"
  "oidMaybe e (JStr s) \<noteq> None \<longleftrightarrow> hex24 s"
  by (simp_all add: oidMaybe_def ObjectId_of_string_def)

text \<open>
  C9. The claim holds of \<open>parseOid\<close> and of \<open>oidMaybe\<close> on strings, and fails of \<open>oidMaybe\<close>
  on other values: for the object \<open>{id: "0123456789abcdef01234567"}\<close> (the value of
  \<open>req.query.usuario_id\<close> for the query \<open>?usuario_id[id]=0123456789abcdef01234567\<close>, which
  the appointment routes pass on as it is) and for \<open>undefined\<close> it returns a handle,
  although neither input is an identifier in hexadecimal form; \<open>parseOid\<close>, which tests
  the type first, returns \<open>null\<close> for both.
\<close>

theorem oidMaybe_handle_for_non_identifier:
  "oidMaybe sample_env (JObj [(''id'', JStr ''0123456789abcdef01234567'')])
     = Some (ObjectId ''0123456789abcdef01234567'')
   \<and> oidMaybe sample_env JUndefined = Some (ObjectId ''650000000000000000000000'')
   \<and> parseOid (JObj [(''id'', JStr ''0123456789abcdef01234567'')]) = None
   \<and> parseOid JUndefined = None
   \<and> \<not> spec_parses_as_identifier (JObj [(''id'', JStr ''0123456789abcdef01234567'')])
   \<and> \<not> spec_parses_as_identifier JUndefined"
  by code_simp

section \<open>The role consistency resolver\<close>

text \<open>
  C3. For a payload with both a role name and a role identifier (both truthy):
  when the identifier resolves to a catalog entry (which has a name, as every role of
  the catalog has), the returned name is that entry's name; when it does not resolve and
  the name is in \<open>ROLE_NAMES\<close> and resolves, the returned identifier is the one of the
  entry found by name; when the name does not resolve either, the identifier field is
  the original one.
\<close>

theorem normalizeRole_both_present:
  assumes "truthy (getprop p ''rol'')" and "truthy (getprop p ''rol_id'')"
  shows "(role_by_id roles (getprop p ''rol_id'') = Some r \<longrightarrow> nombre r \<noteq> []
            \<longrightarrow> getprop (normalizeRole roles p) ''rol'' = JStr (nombre r))
       \<and> (role_by_id roles (getprop p ''rol_id'') = None
            \<longrightarrow> role_by_name roles (getprop p ''rol'') = Some r'
            \<longrightarrow> getprop (normalizeRole roles p) ''rol_id'' = JOid (role_id r'))
       \<and> (role_by_id roles (getprop p ''rol_id'') = None
            \<longrightarrow> role_by_name roles (getprop p ''rol'') = None
            \<longrightarrow> normalizeRole roles p ''rol_id'' = p ''rol_id'')"
  using assms
  by (auto simp: normalizeRole_def role_by_id_def role_by_name_def Let_def getprop_def
           split: option.splits if_splits)

lemma sample_by_id:
  "role_by_id sample_roles (JStr ''aaaaaaaaaaaaaaaaaaaaaaaa'') = Some (hd sample_roles)"
  "role_by_id sample_roles (JStr ''cccccccccccccccccccccccc'') = None"
  by code_simp+

lemma sample_by_name:
  "role_by_name sample_roles (JStr ''Odontologo'') = Some (sample_roles ! 1)"
  "role_by_name sample_roles (JStr ''Laboratorista'') = None"
  by (simp_all add: role_by_name_def ROLE_NAMES_def findOne_def sample_roles_def)

theorem normalizeRole_both_present_witness:
  "getprop (normalizeRole sample_roles
      (sample_payload (JStr ''Asistente'') (JStr ''aaaaaaaaaaaaaaaaaaaaaaaa''))) ''rol''
     = JStr ''Administrador''
   \<and> getprop (normalizeRole sample_roles
      (sample_payload (JStr ''Odontologo'') (JStr ''cccccccccccccccccccccccc''))) ''rol_id''
     = JOid (ObjectId ''bbbbbbbbbbbbbbbbbbbbbbbb'')
   \<and> normalizeRole sample_roles
      (sample_payload (JStr ''Laboratorista'') (JStr ''cccccccccccccccccccccccc'')) ''rol_id''
     = Some (JStr ''cccccccccccccccccccccccc'')"
  using normalizeRole_both_present
          [of "sample_payload (JStr ''Asistente'') (JStr ''aaaaaaaaaaaaaaaaaaaaaaaa'')"
              sample_roles "hd sample_roles" "sample_roles ! 1"]
        normalizeRole_both_present
          [of "sample_payload (JStr ''Odontologo'') (JStr ''cccccccccccccccccccccccc'')"
              sample_roles "hd sample_roles" "sample_roles ! 1"]
        normalizeRole_both_present
          [of "sample_payload (JStr ''Laboratorista'') (JStr ''cccccccccccccccccccccccc'')"
              sample_roles "hd sample_roles" "sample_roles ! 1"]
  by (simp add: sample_payload_def getprop_def sample_by_id sample_by_name)
     (simp add: sample_roles_def)

text \<open>
  C10. \<open>normalizeRole\<close> returns its payload with at most the fields \<open>rol\<close> and \<open>rol_id\<close> added
  or rewritten: every other field is present exactly when the payload has it, with the
  same value, and every field of the payload is still present.
\<close>

theorem normalizeRole_frame:
  "(\<forall>k. k \<noteq> ''rol'' \<and> k \<noteq> ''rol_id'' \<longrightarrow> normalizeRole roles p k = p k)
   \<and> dom p \<subseteq> dom (normalizeRole roles p)"
  by (auto simp: normalizeRole_def Let_def split: option.splits)

theorem normalizeRole_frame_witness:
  "normalizeRole sample_roles (sample_payload (JStr ''Asistente'') (JStr ''aaaaaaaaaaaaaaaaaaaaaaaa''))
     ''nombres'' = Some (JStr ''Ana'')
   \<and> normalizeRole sample_roles (sample_payload (JStr ''Asistente'') (JStr ''aaaaaaaaaaaaaaaaaaaaaaaa''))
     ''correo'' = None
   \<and> ''rol'' \<in> dom (normalizeRole sample_roles
         (sample_payload (JStr ''Asistente'') (JStr ''aaaaaaaaaaaaaaaaaaaaaaaa'')))"
  using normalizeRole_frame
          [of sample_roles "sample_payload (JStr ''Asistente'') (JStr ''aaaaaaaaaaaaaaaaaaaaaaaa'')"]
  by (auto simp: sample_payload_def)

section \<open>Catalog seeding\<close>

text \<open>
  C8. On a collection that is not empty \<open>ensureRolesSeed\<close> inserts nothing; on the empty
  one it inserts the four role names, in order, each with its fixed description and no
  permission; so a second run, whatever identifiers the driver would generate, leaves
  the collection as the first run left it.
\<close>

theorem ensureRolesSeed_idempotent:
  "(roles \<noteq> [] \<longrightarrow> ensureRolesSeed e roles = roles)
   \<and> map (\<lambda>r. (nombre r, descripcion r, permisos r)) (ensureRolesSeed e []) =
       [(''Administrador'', Some (''Gesti'' @ [CHR 0xF3] @ ''n del sistema''), []),
        (''Odontologo'', Some (''Atenci'' @ [CHR 0xF3] @ ''n cl'' @ [CHR 0xED] @ ''nica''), []),
        (''Asistente'', Some (''Apoyo a operaci'' @ [CHR 0xF3] @ ''n''), []),
        (''Laboratorista'', Some ''Laboratorio'', [])]
   \<and> ensureRolesSeed e' (ensureRolesSeed e roles) = ensureRolesSeed e roles"
  by (simp add: ensureRolesSeed_def seed_docs_def ROLE_NAMES_def seed_descripcion_def)

theorem ensureRolesSeed_idempotent_witness:
  "sample_roles \<noteq> []
   \<and> ensureRolesSeed sample_env sample_roles = sample_roles
   \<and> ensureRolesSeed sample_env (ensureRolesSeed sample_env sample_roles) = sample_roles"
  using ensureRolesSeed_idempotent [of sample_roles sample_env sample_env]
  by (simp add: sample_roles_def)

section \<open>The operations of the store\<close>

lemma findOne_Some_mem: "findOne P ds = Some d \<Longrightarrow> d \<in> set ds \<and> P d"
  unfolding findOne_def by (induction ds) (auto split: if_splits)

lemma findOne_map:
  assumes "\<And>x. P (g x) = P x"
  shows "findOne P (map g ds) = map_option g (findOne P ds)"
  unfolding findOne_def using assms by (induction ds) auto

lemma updateOne_same_filter:
  assumes "findOne P ds = Some d" and "P (f d)"
  shows "findOne P (snd (updateOne P f ds)) = Some (f d)"
    and "fst (updateOne P f ds) = (1, if f d = d then 0 else 1)"
  using assms unfolding findOne_def
  by (induction ds) (auto split: if_splits prod.splits)

lemma updateOne_no_match:
  "findOne P ds = None \<Longrightarrow> updateOne P f ds = ((0, 0), ds)"
  unfolding findOne_def by (induction ds) (auto split: if_splits)

lemma updateOne_by_key:
  assumes "distinct (map key ds)"
  shows "snd (updateOne (\<lambda>x. key x = k) f ds) = map (\<lambda>x. if key x = k then f x else x) ds"
  using assms
proof (induction ds)
  case Nil
  then show ?case by simp
next
  case (Cons d ds)
  show ?case
  proof (cases "key d = k")
    case True
    with Cons.prems have "\<forall>x \<in> set ds. key x \<noteq> k" by (force simp: image_iff)
    then have "map (\<lambda>x. if key x = k then f x else x) ds = ds"
      by (induction ds) auto
    with True show ?thesis by simp
  next
    case False
    with Cons show ?thesis by (simp add: split_beta)
  qed
qed

lemma updateOne_by_key_modified:
  assumes "distinct (map key ds)" and "d \<in> set ds"
  shows "fst (updateOne (\<lambda>x. key x = key d) f ds) = (1, if f d = d then 0 else 1)"
  using assms
  by (induction ds) (auto split: prod.splits simp: image_iff)

lemma deleteOne_by_key:
  assumes "distinct (map key ds)"
  shows "deleteOne (\<lambda>x. key x = k) ds
           = (if k \<in> key ` set ds then 1 else 0, filter (\<lambda>x. key x \<noteq> k) ds)"
  using assms
proof (induction ds)
  case Nil
  then show ?case by simp
next
  case (Cons d ds)
  show ?case
  proof (cases "key d = k")
    case True
    with Cons.prems have "\<forall>x \<in> set ds. key x \<noteq> k" by (force simp: image_iff)
    then have "filter (\<lambda>x. key x \<noteq> k) ds = ds" by (induction ds) auto
    with True show ?thesis by simp
  next
    case False
    with Cons show ?thesis by (simp add: split_beta)
  qed
qed

lemma no_null_filter:
  assumes "None \<notin> set ys"
  shows "filter (\<lambda>x. x \<noteq> None) ys = ys"
proof -
  have "x \<noteq> None" if "x \<in> set ys" for x
    using that assms by (metis)
  then show ?thesis by (simp only: filter_id_conv) blast
qed

lemma pull_null_unset_index:
  assumes "None \<notin> set xs" and "i < length xs"
  shows "pull_null (unset_index xs i) = take i xs @ drop (Suc i) xs"
proof -
  have a: "None \<notin> set (take i xs)" and b: "None \<notin> set (drop (Suc i) xs)"
    using assms(1) by (auto dest: in_set_takeD in_set_dropD)
  have "filter (\<lambda>x. x \<noteq> None) (take i xs) = take i xs"
    and "filter (\<lambda>x. x \<noteq> None) (drop (Suc i) xs) = drop (Suc i) xs"
    using no_null_filter [OF a] no_null_filter [OF b] by blast+
  then show ?thesis
    using assms(2) by (simp add: pull_null_def unset_index_def upd_conv_take_nth_drop)
qed

lemma pull_null_unset_out_of_range:
  assumes "None \<notin> set xs" and "length xs \<le> i"
  shows "pull_null (unset_index xs i) = xs"
  using assms no_null_filter [of xs] by (simp add: pull_null_def unset_index_def)

lemma element_at_in_range:
  "None \<notin> set xs \<Longrightarrow> i < length xs \<Longrightarrow> \<exists>cur. element_at xs i = Some cur"
  by (cases "xs ! i") (auto simp: element_at_def dest: nth_mem)

lemma element_at_out_of_range: "length xs \<le> i \<Longrightarrow> element_at xs i = None"
  by (simp add: element_at_def)

section \<open>The total of an appointment\<close>

lemma CitaPatch_parse_fields:
  assumes "CitaPatch_parse b = Some p"
  shows "cq_total p = cq_total b"
    and "(cq_procedimientos p = None) = (cq_procedimientos b = None)"
    and "cq_usuario_id p = Some s \<Longrightarrow> hex24 s"
  using assms
  by (auto simp: CitaPatch_parse_def split: option.splits if_splits; metis)+

lemma cita_set_id [simp]: "cita_id (cita_set e p u c) = cita_id c"
  by (simp add: cita_set_def Let_def split: fecha_in.splits option.splits)

lemma cita_set_total:
  "total (cita_set e p u c) =
     (case cq_total p of
        Some t \<Rightarrow> t
      | None \<Rightarrow> if cq_procedimientos p = None then total c
                else computeTotal (procedimientos (cita_set e p u c)))"
  by (simp add: cita_set_def Let_def split: fecha_in.splits option.splits)

lemma patch_cita_run:
  assumes oid: "oidMaybe e (JStr ident) = Some oid"
      and parse: "CitaPatch_parse b = Some p"
      and found: "findOne (\<lambda>c. cita_id c = oid) (col_citas d) = Some c"
  shows "\<exists>u. findOne (\<lambda>c. cita_id c = oid) (col_citas (snd (patch_cita e d ident b)))
               = Some (cita_set e p u c)"
proof -
  obtain u where u: "(case cq_usuario_id p of
                    Some s \<Rightarrow> if s \<noteq> [] then map_option Some (oidMaybe e (JStr s)) else Some None
                  | None \<Rightarrow> Some None) = Some u"
  proof (cases "cq_usuario_id p")
    case None
    then show ?thesis using that by simp
  next
    case (Some s)
    then have "hex24 s" using CitaPatch_parse_fields(3) [OF parse] by simp
    then have "oidMaybe e (JStr s) = Some (ObjectId (toLowerCase s))" and "s \<noteq> []"
      by (auto simp: oidMaybe_def ObjectId_of_string_def hex24_def)
    then show ?thesis using that Some by simp
  qed
  have Pc: "cita_id c = oid" using findOne_Some_mem [OF found] by simp
  have f: "findOne (\<lambda>c. cita_id c = oid)
             (snd (updateOne (\<lambda>c. cita_id c = oid) (cita_set e p u) (col_citas d)))
           = Some (cita_set e p u c)"
    by (rule updateOne_same_filter(1) [OF found]) (simp add: Pc)
  have m: "fst (updateOne (\<lambda>c. cita_id c = oid) (cita_set e p u) (col_citas d))
             = (1, if cita_set e p u c = c then 0 else 1)"
    by (rule updateOne_same_filter(2) [OF found]) (simp add: Pc)
  have "findOne (\<lambda>c. cita_id c = oid) (col_citas (snd (patch_cita e d ident b)))
               = Some (cita_set e p u c)"
    using oid parse u f m
    by (simp add: patch_cita_def split_beta)
  then show ?thesis by blast
qed

text \<open>
  What \<open>POST /api/citas\<close> stores when the body has no total: the schema has already put
  0 for it, so the sum computed from the line items is never used.
\<close>

lemma post_cita_default_total:
  assumes "cb_total b = None" and "post_cita e d b = (Response 201 (Created i t), d')"
  shows "t = 0 \<and> total (last (col_citas d')) = 0"
  using assms
  by (auto simp: post_cita_def CitaCreate_parse_def Let_def split: option.splits sum.splits if_splits)

text \<open>
  C1, as stated, fails in two ways. A patch that supplies neither line items nor a total
  leaves the stored total as it was: here 999, supplied when the appointment was created,
  over line items that add up to 130. And the creation of the appointment with the line
  items 50 times 2 and 30 times 1 and no total stores 0, not 130.
\<close>

theorem cita_total_counterexample:
  "total_of sample_override_db (ObjectId ''650000000000000000000000'') = Some 999
   \<and> total_of (snd (patch_cita sample_env sample_override_db ''650000000000000000000000''
                      sample_estado_patch))
        (ObjectId ''650000000000000000000000'') = Some 999
   \<and> map_option computeTotal
        (lineas_of (snd (patch_cita sample_env sample_override_db ''650000000000000000000000''
                           sample_estado_patch))
           (ObjectId ''650000000000000000000000'')) = Some 130
   \<and> map total (col_citas (snd (post_cita sample_env empty_db sample_cita_body))) = [0]
   \<and> map computeTotal (map procedimientos
         (col_citas (snd (post_cita sample_env empty_db sample_cita_body)))) = [130]"
  by code_simp

text \<open>
  C1, amended. An accepted patch of an existing appointment (\<open>PATCH /api/citas/:id\<close>)
  stores the total it supplies; when it supplies line items and no total, the stored
  total is the sum of cost times quantity over the normalized line items it stores; when
  it supplies neither, the stored total is the one from before. A creation that supplies
  a total stores that total.
\<close>

theorem cita_total:
  "(oidMaybe e (JStr ident) = Some oid \<and> CitaPatch_parse b \<noteq> None \<and> total_of d oid = Some t0
     \<longrightarrow> total_of (snd (patch_cita e d ident b)) oid =
           (case cq_total b of
              Some t \<Rightarrow> Some t
            | None \<Rightarrow> if cq_procedimientos b = None then Some t0
                      else map_option computeTotal (lineas_of (snd (patch_cita e d ident b)) oid)))
   \<and> (cb_total cb = Some t \<and> post_cita e d cb = (Response 201 (Created i t'), d')
     \<longrightarrow> t' = t \<and> total (last (col_citas d')) = t)"
proof (intro conjI impI)
  assume a: "oidMaybe e (JStr ident) = Some oid \<and> CitaPatch_parse b \<noteq> None
      \<and> total_of d oid = Some t0"
  then obtain p where p: "CitaPatch_parse b = Some p" by auto
  from a obtain c where c: "findOne (\<lambda>c. cita_id c = oid) (col_citas d) = Some c"
      and t0: "total c = t0"
    by (auto simp: total_of_def)
  from a have oid: "oidMaybe e (JStr ident) = Some oid" by simp
  from patch_cita_run [OF oid p c] obtain u
    where r: "findOne (\<lambda>c. cita_id c = oid) (col_citas (snd (patch_cita e d ident b)))
               = Some (cita_set e p u c)" by blast
  show "total_of (snd (patch_cita e d ident b)) oid =
           (case cq_total b of
              Some t \<Rightarrow> Some t
            | None \<Rightarrow> if cq_procedimientos b = None then Some t0
                      else map_option computeTotal (lineas_of (snd (patch_cita e d ident b)) oid))"
    using CitaPatch_parse_fields(1,2) [OF p] t0
    by (auto simp: total_of_def lineas_of_def r cita_set_total split: option.splits)
next
  assume a: "cb_total cb = Some t \<and> post_cita e d cb = (Response 201 (Created i t'), d')"
  then show "t' = t" and "total (last (col_citas d')) = t"
    by (auto simp: post_cita_def CitaCreate_parse_def Let_def
          split: option.splits sum.splits if_splits)
qed

theorem cita_total_witness:
  "total_of (snd (patch_cita sample_env sample_override_db ''650000000000000000000000''
                    sample_items_patch))
     (ObjectId ''650000000000000000000000'') = Some 290
   \<and> total_of (snd (patch_cita sample_env sample_override_db ''650000000000000000000000''
                      sample_estado_patch))
       (ObjectId ''650000000000000000000000'') = Some 999
   \<and> total (last (col_citas sample_override_db)) = 999"
proof -
  have h1: "oidMaybe sample_env (JStr ''650000000000000000000000'')
              = Some (ObjectId ''650000000000000000000000'')
      \<and> CitaPatch_parse sample_items_patch \<noteq> None
      \<and> total_of sample_override_db (ObjectId ''650000000000000000000000'') = Some 999"
    by code_simp
  have h2: "oidMaybe sample_env (JStr ''650000000000000000000000'')
              = Some (ObjectId ''650000000000000000000000'')
      \<and> CitaPatch_parse sample_estado_patch \<noteq> None
      \<and> total_of sample_override_db (ObjectId ''650000000000000000000000'') = Some 999"
    by code_simp
  have e1: "cq_total sample_items_patch = None \<and> cq_procedimientos sample_items_patch \<noteq> None
      \<and> cq_total sample_estado_patch = None \<and> cq_procedimientos sample_estado_patch = None"
    by code_simp
  have e2: "map_option computeTotal
        (lineas_of (snd (patch_cita sample_env sample_override_db ''650000000000000000000000''
                           sample_items_patch))
           (ObjectId ''650000000000000000000000'')) = Some 290"
    by code_simp
  have f3: "fst (post_cita sample_env empty_db (sample_cita_body\<lparr>cb_total := Some 999\<rparr>))
              = Response 201 (Created (ObjectId ''650000000000000000000000'') 999)"
    by code_simp
  have h3: "cb_total (sample_cita_body\<lparr>cb_total := Some 999\<rparr>) = Some 999
      \<and> post_cita sample_env empty_db (sample_cita_body\<lparr>cb_total := Some 999\<rparr>)
          = (Response 201 (Created (ObjectId ''650000000000000000000000'') 999),
             sample_override_db)"
    using f3 by (simp add: sample_override_db_def prod_eq_iff)
  have c3: "total (last (col_citas sample_override_db)) = 999"
    using cita_total [where e = sample_env and d = empty_db
        and cb = "sample_cita_body\<lparr>cb_total := Some 999\<rparr>" and t = 999
        and i = "ObjectId ''650000000000000000000000''" and t' = 999
        and d' = sample_override_db] h3
    by blast
  show ?thesis
    using cita_total [where e = sample_env and d = sample_override_db
        and ident = "''650000000000000000000000''" and oid = "ObjectId ''650000000000000000000000''"
        and b = sample_items_patch and ?t0.0 = 999]
      cita_total [where e = sample_env and d = sample_override_db
        and ident = "''650000000000000000000000''" and oid = "ObjectId ''650000000000000000000000''"
        and b = sample_estado_patch and ?t0.0 = 999]
      h1 h2 e1 e2 c3
    by simp
qed

section \<open>Deletion behind a reference count\<close>

text \<open>
  \<open>DELETE /api/roles/:id\<close> refuses whenever one of its two counts is positive, whatever
  the query string holds, and leaves the store as it is.
\<close>

lemma delete_role_refuses:
  assumes "oidMaybe e (JStr ident) = Some oid"
      and "findOne (\<lambda>r. role_id r = oid) (col_roles d) = Some r"
      and "countDocuments (\<lambda>u. field_matches (getprop u ''rol_id'') (JOid oid)) (col_usuarios d) = byId"
      and "countDocuments (\<lambda>u. field_matches (getprop u ''rol'') (JStr (nombre r))) (col_usuarios d)
             = byString"
      and "byId + byString > 0"
  shows "delete_role e d ident query
           = (Response 409 (Failure (RolAsignado (byId + byString) byId byString)), d)"
  using assms by (simp add: delete_role_def Let_def)

text \<open>
  C5. The refusal and the unchanged store hold (lemma \<open>delete_role_refuses\<close>), the sum of
  the two counts does not: one user, stored by \<open>crearUsuario\<close> with the role's name and the
  role's identifier, is counted by identifier and again by name, so the answer names 2
  users (\<open>byId = 1\<close>, \<open>byString = 1\<close>) where one user references the role.
\<close>

theorem delete_role_counts_user_twice:
  "fst (delete_role sample_env sample_db ''aaaaaaaaaaaaaaaaaaaaaaaa'' Map.empty)
     = Response 409 (Failure (RolAsignado 2 1 1))
   \<and> spec_users_referencing sample_db (hd sample_roles) = 1
   \<and> getprop sample_usuario ''rol'' = JStr ''Administrador''
   \<and> getprop sample_usuario ''rol_id'' = JOid (ObjectId ''aaaaaaaaaaaaaaaaaaaaaaaa'')"
  by code_simp

lemma parseBool_force_1: "parseBool (Some (QStr ''1'')) = Some True"
  by code_simp

lemma delete_procedimiento_refused:
  assumes "oidMaybe e (JStr ident) = Some oid"
      and "countDocuments (\<lambda>c. list_ex (\<lambda>p. procedimiento_id p = Some oid) (procedimientos c))
             (col_citas d) = refs"
      and "refs \<ge> 1"
      and "parseBool (query ''force'') \<noteq> Some True"
  shows "delete_procedimiento e d ident query
           = (Response 409 (Failure (ProcedimientoReferenciado refs)), d)"
  using assms by (auto simp: delete_procedimiento_def Let_def)

lemma delete_procedimiento_forced:
  assumes "oidMaybe e (JStr ident) = Some oid"
      and "parseBool (query ''force'') = Some True"
      and "distinct (map proc_id (col_procedimientos d))"
      and "findOne (\<lambda>p. proc_id p = oid) (col_procedimientos d) = Some pr"
  shows "delete_procedimiento e d ident query
           = (Response 200 (Deleted 1),
              d\<lparr>col_procedimientos := filter (\<lambda>p. proc_id p \<noteq> oid) (col_procedimientos d)\<rparr>)"
proof -
  have "oid \<in> proc_id ` set (col_procedimientos d)"
    using findOne_Some_mem [OF assms(4)] by force
  then show ?thesis
    using assms(1,2) by (simp add: delete_procedimiento_def Let_def deleteOne_by_key [OF assms(3)])
qed

text \<open>
  C6. For a procedure type that at least one appointment references through a line item
  (\<open>refs\<close> such appointments): without a force flag that \<open>parseBool\<close> reads as true the
  answer is the conflict that names \<open>refs\<close> and the store is unchanged, procedure types
  and appointments alike; with \<open>force=1\<close> the procedure type, if it exists, is deleted and
  nothing else changes.
\<close>

theorem delete_procedimiento_gate:
  assumes "oidMaybe e (JStr ident) = Some oid"
      and "countDocuments (\<lambda>c. list_ex (\<lambda>p. procedimiento_id p = Some oid) (procedimientos c))
             (col_citas d) = refs"
      and "refs \<ge> 1"
  shows "(parseBool (query ''force'') \<noteq> Some True
            \<longrightarrow> delete_procedimiento e d ident query
                  = (Response 409 (Failure (ProcedimientoReferenciado refs)), d))
       \<and> (query ''force'' = Some (QStr ''1'')
            \<and> distinct (map proc_id (col_procedimientos d))
            \<and> findOne (\<lambda>p. proc_id p = oid) (col_procedimientos d) \<noteq> None
            \<longrightarrow> delete_procedimiento e d ident query
                  = (Response 200 (Deleted 1),
                     d\<lparr>col_procedimientos :=
                          filter (\<lambda>p. proc_id p \<noteq> oid) (col_procedimientos d)\<rparr>))"
proof (intro conjI impI)
  assume "parseBool (query ''force'') \<noteq> Some True"
  then show "delete_procedimiento e d ident query
                  = (Response 409 (Failure (ProcedimientoReferenciado refs)), d)"
    by (rule delete_procedimiento_refused [where query = query, OF assms])
next
  assume a: "query ''force'' = Some (QStr ''1'')
            \<and> distinct (map proc_id (col_procedimientos d))
            \<and> findOne (\<lambda>p. proc_id p = oid) (col_procedimientos d) \<noteq> None"
  then obtain pr where pr: "findOne (\<lambda>p. proc_id p = oid) (col_procedimientos d) = Some pr"
    by auto
  from a have f: "parseBool (query ''force'') = Some True"
    by (simp add: parseBool_force_1)
  from a have dist: "distinct (map proc_id (col_procedimientos d))" by simp
  show "delete_procedimiento e d ident query
                  = (Response 200 (Deleted 1),
                     d\<lparr>col_procedimientos :=
                          filter (\<lambda>p. proc_id p \<noteq> oid) (col_procedimientos d)\<rparr>)"
    by (rule delete_procedimiento_forced [where query = query, OF assms(1) f dist pr])
qed

theorem delete_procedimiento_gate_witness:
  "delete_procedimiento sample_env sample_citas_db ''eeeeeeeeeeeeeeeeeeeeeeee'' Map.empty
     = (Response 409 (Failure (ProcedimientoReferenciado 1)), sample_citas_db)
   \<and> delete_procedimiento sample_env sample_citas_db ''eeeeeeeeeeeeeeeeeeeeeeee'' sample_query_force
     = (Response 200 (Deleted 1), sample_citas_db\<lparr>col_procedimientos := []\<rparr>)"
proof -
  have h1: "oidMaybe sample_env (JStr ''eeeeeeeeeeeeeeeeeeeeeeee'')
              = Some (ObjectId ''eeeeeeeeeeeeeeeeeeeeeeee'')"
    by code_simp
  have h2: "countDocuments
              (\<lambda>c. list_ex (\<lambda>p. procedimiento_id p = Some (ObjectId ''eeeeeeeeeeeeeeeeeeeeeeee''))
                     (procedimientos c))
              (col_citas sample_citas_db) = 1"
    by code_simp
  have h3: "parseBool (Map.empty ''force'') \<noteq> Some True"
    by code_simp
  have h4: "sample_query_force ''force'' = Some (QStr ''1'')
      \<and> distinct (map proc_id (col_procedimientos sample_citas_db))
      \<and> findOne (\<lambda>p. proc_id p = ObjectId ''eeeeeeeeeeeeeeeeeeeeeeee'')
           (col_procedimientos sample_citas_db) \<noteq> None"
    by code_simp
  have e: "filter (\<lambda>p. proc_id p \<noteq> ObjectId ''eeeeeeeeeeeeeeeeeeeeeeee'')
             (col_procedimientos sample_citas_db) = []"
    by code_simp
  show ?thesis
    using delete_procedimiento_gate [OF h1 h2, where query = Map.empty]
      delete_procedimiento_gate [OF h1 h2, where query = sample_query_force]
      h3 h4 e
    by simp
qed

section \<open>Array elements by index\<close>

lemma historia_delete_in_range:
  assumes dist: "distinct (map historia_id (col_historias_clinicas d))"
      and found: "findOne (\<lambda>h. h_paciente_id h = paciente) (col_historias_clinicas d) = Some h"
      and idx: "parseInt10 index = Some (int i)"
      and inr: "i < length (procedimientos_realizados h)"
      and nonull: "None \<notin> set (procedimientos_realizados h)"
  shows "fst (delete_procedimiento_realizado e d paciente index) = Response 200 (DeletedFlag True)"
    and "findOne (\<lambda>h. h_paciente_id h = paciente)
           (col_historias_clinicas (snd (delete_procedimiento_realizado e d paciente index)))
         = Some (h\<lparr>procedimientos_realizados :=
                      take i (procedimientos_realizados h) @ drop (Suc i) (procedimientos_realizados h),
                    h_updatedAt := now e\<rparr>)"
proof -
  let ?hs = "col_historias_clinicas d"
  let ?xs = "procedimientos_realizados h"
  let ?f1 = "\<lambda>x. x\<lparr>procedimientos_realizados := unset_index (procedimientos_realizados x) i\<rparr>"
  let ?f2 = "\<lambda>x. x\<lparr>procedimientos_realizados := pull_null (procedimientos_realizados x),
                     h_updatedAt := now e\<rparr>"
  let ?g1 = "\<lambda>x. if historia_id x = historia_id h then ?f1 x else x"
  let ?g2 = "\<lambda>x. if historia_id x = historia_id h then ?f2 x else x"
  let ?hs1 = "snd (updateOne (\<lambda>x. historia_id x = historia_id h) ?f1 ?hs)"
  let ?u2 = "updateOne (\<lambda>x. historia_id x = historia_id h) ?f2 ?hs1"
  obtain cur where cur: "element_at ?xs i = Some cur"
    using element_at_in_range [OF nonull inr] by blast
  have hmem: "h \<in> set ?hs"
    using findOne_Some_mem [OF found] by simp
  have hs1: "?hs1 = map ?g1 ?hs"
    by (rule updateOne_by_key [OF dist])
  have keys1: "map historia_id ?hs1 = map historia_id ?hs"
    unfolding hs1 by (induction ?hs) auto
  have dist1: "distinct (map historia_id ?hs1)"
    using dist keys1 by simp
  have hs2: "snd ?u2 = map ?g2 ?hs1"
    by (rule updateOne_by_key [OF dist1])
  have final: "snd (updateOne (\<lambda>x. historia_id x = historia_id h) ?f2 (map ?g1 ?hs))
                 = map ?g2 (map ?g1 ?hs)"
    using hs2 unfolding hs1 .
  have mem1: "?f1 h \<in> set ?hs1"
    unfolding hs1 using hmem by force
  have neq: "pull_null (unset_index ?xs i) \<noteq> unset_index ?xs i"
  proof
    assume "pull_null (unset_index ?xs i) = unset_index ?xs i"
    then have "length (pull_null (unset_index ?xs i)) = length (unset_index ?xs i)" by simp
    then show False
      using inr by (simp add: pull_null_unset_index [OF nonull inr]) (simp add: unset_index_def)
  qed
  have mod2: "fst ?u2 = (1, 1)"
    using updateOne_by_key_modified [OF dist1 mem1, of ?f2] neq
    by (auto dest: arg_cong [where f = procedimientos_realizados])
  have run: "delete_procedimiento_realizado e d paciente index =
               (Response 200 (DeletedFlag (snd (fst ?u2) > 0)),
                d\<lparr>col_historias_clinicas := snd ?u2\<rparr>)"
    using idx found cur
    by (simp add: delete_procedimiento_realizado_def split_beta)
  show "fst (delete_procedimiento_realizado e d paciente index) = Response 200 (DeletedFlag True)"
    by (simp add: run mod2)
  have "findOne (\<lambda>h. h_paciente_id h = paciente) (map ?g2 (map ?g1 ?hs))
          = map_option (\<lambda>x. ?g2 (?g1 x)) (findOne (\<lambda>h. h_paciente_id h = paciente) ?hs)"
    unfolding map_map comp_def by (rule findOne_map) simp
  then show "findOne (\<lambda>h. h_paciente_id h = paciente)
           (col_historias_clinicas (snd (delete_procedimiento_realizado e d paciente index)))
         = Some (h\<lparr>procedimientos_realizados :=
                      take i (procedimientos_realizados h) @ drop (Suc i) (procedimientos_realizados h),
                    h_updatedAt := now e\<rparr>)"
    by (simp add: run hs1 final found pull_null_unset_index [OF nonull inr])
qed

lemma historia_out_of_range:
  assumes "findOne (\<lambda>h. h_paciente_id h = paciente) (col_historias_clinicas d) = Some h"
      and "parseInt10 index = Some (int i)"
      and "length (procedimientos_realizados h) \<le> i"
  shows "delete_procedimiento_realizado e d paciente index
           = (Response 404 (Failure IndiceFueraDeRango), d)"
    and "ProcPatch_parse pb \<noteq> None \<Longrightarrow>
         patch_procedimiento_realizado e d paciente index pb
           = (Response 404 (Failure IndiceFueraDeRango), d)"
    and "snd (patch_procedimiento_realizado e d paciente index pb) = d"
  using assms
  by (auto simp: delete_procedimiento_realizado_def patch_procedimiento_realizado_def
        element_at_out_of_range split: option.splits)

lemma OrdenLabPatch_parse_plain:
  assumes "OrdenLabPatch_parse b \<noteq> None" and "set_productos b = None" and "push_productos b = None"
  shows "OrdenLabPatch_parse b = Some b"
  using assms by (auto simp: OrdenLabPatch_parse_def parse_productos_def split: if_splits)

lemma orden_set_fields [simp]:
  "orden_id (orden_set e b x) = orden_id x" "productos (orden_set e b x) = productos x"
  by (simp_all add: orden_set_def)

lemma orden_delete_run:
  assumes oid: "oidMaybe e (JStr ident) = Some oid"
      and parse: "OrdenLabPatch_parse b \<noteq> None"
      and branch: "set_productos b = None" "push_productos b = None" "producto_patch b = None"
                  "producto_delete_index b = Some (int i)"
  shows "patch_orden e d ident b =
           (Response 200 (Modified (if snd (fst (updateOne (\<lambda>x. orden_id x = oid)
                (\<lambda>x. orden_set e b (x\<lparr>productos := pull_null (productos x)\<rparr>))
                (snd (updateOne (\<lambda>x. orden_id x = oid)
                        (\<lambda>x. x\<lparr>productos := unset_index (productos x) i\<rparr>)
                        (col_ordenes_laboratorio d))))) > 0 then 1 else 0)),
            d\<lparr>col_ordenes_laboratorio :=
                 snd (updateOne (\<lambda>x. orden_id x = oid)
                        (\<lambda>x. orden_set e b (x\<lparr>productos := pull_null (productos x)\<rparr>))
                        (snd (updateOne (\<lambda>x. orden_id x = oid)
                                (\<lambda>x. x\<lparr>productos := unset_index (productos x) i\<rparr>)
                                (col_ordenes_laboratorio d))))\<rparr>)"
  using oid branch OrdenLabPatch_parse_plain [OF parse branch(1,2)]
  by (simp add: patch_orden_def split_beta)

lemma orden_delete_in_range:
  assumes oid: "oidMaybe e (JStr ident) = Some oid"
      and parse: "OrdenLabPatch_parse b \<noteq> None"
      and branch: "set_productos b = None" "push_productos b = None" "producto_patch b = None"
                  "producto_delete_index b = Some (int i)"
      and found: "findOne (\<lambda>x. orden_id x = oid) (col_ordenes_laboratorio d) = Some ord"
      and inr: "i < length (productos ord)"
      and nonull: "None \<notin> set (productos ord)"
  shows "fst (patch_orden e d ident b) = Response 200 (Modified 1)"
    and "findOne (\<lambda>x. orden_id x = oid) (col_ordenes_laboratorio (snd (patch_orden e d ident b)))
         = Some (orden_set e b
                  (ord\<lparr>productos := take i (productos ord) @ drop (Suc i) (productos ord)\<rparr>))"
proof -
  let ?P = "\<lambda>x. orden_id x = oid"
  let ?f1 = "\<lambda>x. x\<lparr>productos := unset_index (productos x) i\<rparr>"
  let ?f2 = "\<lambda>x. orden_set e b (x\<lparr>productos := pull_null (productos x)\<rparr>)"
  let ?os1 = "snd (updateOne ?P ?f1 (col_ordenes_laboratorio d))"
  have Pord: "orden_id ord = oid"
    using findOne_Some_mem [OF found] by simp
  have found1: "findOne ?P ?os1 = Some (?f1 ord)"
    by (rule updateOne_same_filter(1) [OF found]) (simp add: Pord)
  have found2: "findOne ?P (snd (updateOne ?P ?f2 ?os1)) = Some (?f2 (?f1 ord))"
    by (rule updateOne_same_filter(1) [OF found1]) (simp add: Pord)
  have neq: "pull_null (unset_index (productos ord) i) \<noteq> unset_index (productos ord) i"
  proof
    assume "pull_null (unset_index (productos ord) i) = unset_index (productos ord) i"
    then have "length (pull_null (unset_index (productos ord) i))
                 = length (unset_index (productos ord) i)" by simp
    then show False
      using inr by (simp add: pull_null_unset_index [OF nonull inr]) (simp add: unset_index_def)
  qed
  have "?f2 (?f1 ord) \<noteq> ?f1 ord"
    using neq by (auto dest: arg_cong [where f = productos])
  then have mod2: "fst (updateOne ?P ?f2 ?os1) = (1, 1)"
    using updateOne_same_filter(2) [OF found1, of ?f2] by (simp add: Pord)
  show "fst (patch_orden e d ident b) = Response 200 (Modified 1)"
    by (simp add: orden_delete_run [OF oid parse branch] mod2)
  show "findOne (\<lambda>x. orden_id x = oid) (col_ordenes_laboratorio (snd (patch_orden e d ident b)))
         = Some (orden_set e b
                  (ord\<lparr>productos := take i (productos ord) @ drop (Suc i) (productos ord)\<rparr>))"
    by (simp add: orden_delete_run [OF oid parse branch] found2
          pull_null_unset_index [OF nonull inr])
qed

lemma orden_delete_reports_success:
  assumes oid: "oidMaybe e (JStr ident) = Some oid"
      and parse: "OrdenLabPatch_parse b \<noteq> None"
      and branch: "set_productos b = None" "push_productos b = None" "producto_patch b = None"
                  "producto_delete_index b = Some (int i)"
  shows "status (fst (patch_orden e d ident b)) = 200 \<and> ok (fst (patch_orden e d ident b))"
  by (simp add: orden_delete_run [OF oid parse branch])

lemma orden_delete_out_of_range:
  assumes oid: "oidMaybe e (JStr ident) = Some oid"
      and parse: "OrdenLabPatch_parse b \<noteq> None"
      and branch: "set_productos b = None" "push_productos b = None" "producto_patch b = None"
                  "producto_delete_index b = Some (int i)"
      and found: "findOne (\<lambda>x. orden_id x = oid) (col_ordenes_laboratorio d) = Some ord"
      and outr: "length (productos ord) \<le> i"
  shows "findOne (\<lambda>x. orden_id x = oid) (col_ordenes_laboratorio (snd (patch_orden e d ident b)))
         = Some (orden_set e b (ord\<lparr>productos := pull_null (productos ord)\<rparr>))"
proof -
  let ?P = "\<lambda>x. orden_id x = oid"
  let ?f1 = "\<lambda>x. x\<lparr>productos := unset_index (productos x) i\<rparr>"
  let ?f2 = "\<lambda>x. orden_set e b (x\<lparr>productos := pull_null (productos x)\<rparr>)"
  let ?os1 = "snd (updateOne ?P ?f1 (col_ordenes_laboratorio d))"
  have Pord: "orden_id ord = oid"
    using findOne_Some_mem [OF found] by simp
  have found1: "findOne ?P ?os1 = Some (?f1 ord)"
    by (rule updateOne_same_filter(1) [OF found]) (simp add: Pord)
  have found2: "findOne ?P (snd (updateOne ?P ?f2 ?os1)) = Some (?f2 (?f1 ord))"
    by (rule updateOne_same_filter(1) [OF found1]) (simp add: Pord)
  have same: "unset_index (productos ord) i = productos ord"
    using outr by (simp add: unset_index_def)
  show ?thesis
    by (simp add: orden_delete_run [OF oid parse branch] found2 same)
qed

lemma orden_patch_out_of_range:
  assumes "oidMaybe e (JStr ident) = Some oid"
      and "OrdenLabPatch_parse b \<noteq> None"
      and "set_productos b = None" "push_productos b = None"
      and "producto_patch b = Some po" and "op_index po = int i"
      and "findOne (\<lambda>x. orden_id x = oid) (col_ordenes_laboratorio d) = Some ord"
      and "length (productos ord) \<le> i"
  shows "patch_orden e d ident b = (Response 404 (Failure IndiceFueraDeRango), d)"
  using assms(1,3-) OrdenLabPatch_parse_plain [OF assms(2,3,4)]
  by (simp add: patch_orden_def element_at_out_of_range)

lemma two_step_delete:
  assumes "None \<notin> set zs" and "k < length zs"
  shows "length (pull_null (unset_index zs k)) = length zs - 1"
    and "None \<notin> set (pull_null (unset_index zs k))"
    and "\<forall>m < length zs - 1.
           pull_null (unset_index zs k) ! m = (if m < k then zs ! m else zs ! Suc m)"
proof -
  have eq: "pull_null (unset_index zs k) = take k zs @ drop (Suc k) zs"
    by (rule pull_null_unset_index [OF assms])
  show "length (pull_null (unset_index zs k)) = length zs - 1"
    using assms(2) by (simp add: eq)
  show "None \<notin> set (pull_null (unset_index zs k))"
    using assms(1) by (auto simp: eq dest: in_set_takeD in_set_dropD)
  show "\<forall>m < length zs - 1.
           pull_null (unset_index zs k) ! m = (if m < k then zs ! m else zs ! Suc m)"
    using assms(2) by (auto simp: eq nth_append min_def)
qed

text \<open>
  C2. When the array of a clinical history, or of a laboratory order, has \<open>n\<close> elements,
  none of them \<open>null\<close>, the deletion at an index below \<open>n\<close> leaves in the store the array
  that the two steps give (\<open>$unset\<close> of the position, then \<open>$pull: null\<close>); that array is the
  old one without the element at the index: it has \<open>n - 1\<close> elements, none of them \<open>null\<close>,
  and the other elements keep their order. Identifiers are unique in a collection.
\<close>

theorem delete_at_index:
  "(distinct (map historia_id (col_historias_clinicas d))
      \<and> procedimientos_of d paciente = Some xs \<and> parseInt10 index = Some (int i)
      \<and> i < length xs \<and> None \<notin> set xs
     \<longrightarrow> procedimientos_of (snd (delete_procedimiento_realizado e d paciente index)) paciente
           = Some (pull_null (unset_index xs i)))
   \<and> (oidMaybe e (JStr ident) = Some oid \<and> delete_index_request b j
      \<and> productos_of d oid = Some ys \<and> j < length ys \<and> None \<notin> set ys
     \<longrightarrow> productos_of (snd (patch_orden e d ident b)) oid = Some (pull_null (unset_index ys j)))
   \<and> (None \<notin> set zs \<and> k < length zs
     \<longrightarrow> pull_null (unset_index zs k) = take k zs @ drop (Suc k) zs
         \<and> length (pull_null (unset_index zs k)) = length zs - 1
         \<and> None \<notin> set (pull_null (unset_index zs k))
         \<and> (\<forall>m < length zs - 1.
               pull_null (unset_index zs k) ! m = (if m < k then zs ! m else zs ! Suc m)))"
proof (intro conjI impI)
  assume a: "distinct (map historia_id (col_historias_clinicas d))
      \<and> procedimientos_of d paciente = Some xs \<and> parseInt10 index = Some (int i)
      \<and> i < length xs \<and> None \<notin> set xs"
  then obtain h where h: "findOne (\<lambda>h. h_paciente_id h = paciente) (col_historias_clinicas d) = Some h"
      and xs: "procedimientos_realizados h = xs"
    by (auto simp: procedimientos_of_def)
  from a xs have "i < length (procedimientos_realizados h)"
      and "None \<notin> set (procedimientos_realizados h)" by simp_all
  from historia_delete_in_range(2) [OF conjunct1 [OF a] h _ this, of index e] a
  show "procedimientos_of (snd (delete_procedimiento_realizado e d paciente index)) paciente
           = Some (pull_null (unset_index xs i))"
    by (simp add: procedimientos_of_def xs pull_null_unset_index)
next
  assume a: "oidMaybe e (JStr ident) = Some oid \<and> delete_index_request b j
      \<and> productos_of d oid = Some ys \<and> j < length ys \<and> None \<notin> set ys"
  then obtain ord where ord: "findOne (\<lambda>x. orden_id x = oid) (col_ordenes_laboratorio d) = Some ord"
      and ys: "productos ord = ys"
    by (auto simp: productos_of_def)
  from a ys have r: "j < length (productos ord)" "None \<notin> set (productos ord)" by simp_all
  from a have q: "oidMaybe e (JStr ident) = Some oid" "OrdenLabPatch_parse b \<noteq> None"
      "set_productos b = None" "push_productos b = None" "producto_patch b = None"
      "producto_delete_index b = Some (int j)"
    by (simp_all add: delete_index_request_def)
  from orden_delete_in_range(2) [OF q ord r] a
  show "productos_of (snd (patch_orden e d ident b)) oid = Some (pull_null (unset_index ys j))"
    by (simp add: productos_of_def ys pull_null_unset_index)
next
  assume a: "None \<notin> set zs \<and> k < length zs"
  then show "pull_null (unset_index zs k) = take k zs @ drop (Suc k) zs"
    by (simp add: pull_null_unset_index)
  from a show "length (pull_null (unset_index zs k)) = length zs - 1"
    by (simp add: two_step_delete(1))
  from a show "None \<notin> set (pull_null (unset_index zs k))"
    by (simp add: two_step_delete(2))
  from a show "\<forall>m < length zs - 1.
               pull_null (unset_index zs k) ! m = (if m < k then zs ! m else zs ! Suc m)"
    using two_step_delete(3) [of zs k] by blast
qed

theorem delete_at_index_witness:
  "procedimientos_of
     (snd (delete_procedimiento_realizado sample_env sample_historias_db ''123'' ''1'')) ''123''
     = Some [sample_realizados ! 0, sample_realizados ! 2]
   \<and> productos_of
       (snd (patch_orden sample_env sample_ordenes_db ''dddddddddddddddddddddddd''
               (sample_delete_patch 1)))
       (ObjectId ''dddddddddddddddddddddddd'')
     = Some [sample_productos ! 0, sample_productos ! 2]"
proof -
  have h1: "distinct (map historia_id (col_historias_clinicas sample_historias_db))
      \<and> procedimientos_of sample_historias_db ''123'' = Some sample_realizados
      \<and> parseInt10 ''1'' = Some (int 1)
      \<and> 1 < length sample_realizados \<and> None \<notin> set sample_realizados"
    by code_simp
  have h2: "oidMaybe sample_env (JStr ''dddddddddddddddddddddddd'')
        = Some (ObjectId ''dddddddddddddddddddddddd'')
      \<and> delete_index_request (sample_delete_patch 1) 1
      \<and> productos_of sample_ordenes_db (ObjectId ''dddddddddddddddddddddddd'')
          = Some sample_productos
      \<and> 1 < length sample_productos \<and> None \<notin> set sample_productos"
    by code_simp
  have e1: "pull_null (unset_index sample_realizados 1)
              = [sample_realizados ! 0, sample_realizados ! 2]"
    by code_simp
  have e2: "pull_null (unset_index sample_productos 1)
              = [sample_productos ! 0, sample_productos ! 2]"
    by code_simp
  have c1: "procedimientos_of
     (snd (delete_procedimiento_realizado sample_env sample_historias_db ''123'' ''1'')) ''123''
     = Some (pull_null (unset_index sample_realizados 1))"
    using delete_at_index [where d = sample_historias_db and paciente = "''123''"
        and xs = sample_realizados and index = "''1''" and i = 1 and e = sample_env] h1
    by blast
  have c2: "productos_of
       (snd (patch_orden sample_env sample_ordenes_db ''dddddddddddddddddddddddd''
               (sample_delete_patch 1)))
       (ObjectId ''dddddddddddddddddddddddd'')
     = Some (pull_null (unset_index sample_productos 1))"
    using delete_at_index [where d = sample_ordenes_db and e = sample_env
        and ident = "''dddddddddddddddddddddddd''" and oid = "ObjectId ''dddddddddddddddddddddddd''"
        and b = "sample_delete_patch 1" and j = 1 and ys = sample_productos] h2
    by blast
  show ?thesis using c1 c2 e1 e2 by simp
qed

text \<open>
  C4. A merge-patch at an index at or beyond the length of the array, of a performed
  procedure or of a product of a laboratory order (a request that reaches the branch of
  \<open>producto_patch\<close>), answers 404 with the error of the index out of range and returns the
  store as it was.
\<close>

theorem merge_patch_out_of_range:
  "(parseInt10 index = Some (int i) \<and> ProcPatch_parse pb \<noteq> None
      \<and> procedimientos_of d paciente = Some xs \<and> length xs \<le> i
     \<longrightarrow> patch_procedimiento_realizado e d paciente index pb
           = (Response 404 (Failure IndiceFueraDeRango), d))
   \<and> (oidMaybe e (JStr ident) = Some oid \<and> merge_patch_request b j
      \<and> productos_of d oid = Some ys \<and> length ys \<le> j
     \<longrightarrow> patch_orden e d ident b = (Response 404 (Failure IndiceFueraDeRango), d))"
proof (intro conjI impI)
  assume a: "parseInt10 index = Some (int i) \<and> ProcPatch_parse pb \<noteq> None
      \<and> procedimientos_of d paciente = Some xs \<and> length xs \<le> i"
  then obtain h where h: "findOne (\<lambda>h. h_paciente_id h = paciente) (col_historias_clinicas d) = Some h"
      and xs: "procedimientos_realizados h = xs"
    by (auto simp: procedimientos_of_def)
  from a xs have "length (procedimientos_realizados h) \<le> i" by simp
  from historia_out_of_range(2) [OF h _ this, of index pb e] a
  show "patch_procedimiento_realizado e d paciente index pb
           = (Response 404 (Failure IndiceFueraDeRango), d)"
    by simp
next
  assume a: "oidMaybe e (JStr ident) = Some oid \<and> merge_patch_request b j
      \<and> productos_of d oid = Some ys \<and> length ys \<le> j"
  then obtain ord where ord: "findOne (\<lambda>x. orden_id x = oid) (col_ordenes_laboratorio d) = Some ord"
      and ys: "productos ord = ys"
    by (auto simp: productos_of_def)
  from a obtain po where po: "producto_patch b = Some po" "op_index po = int j"
    by (auto simp: merge_patch_request_def)
  from a ys have r: "length (productos ord) \<le> j" by simp
  from a have q: "oidMaybe e (JStr ident) = Some oid" "OrdenLabPatch_parse b \<noteq> None"
      "set_productos b = None" "push_productos b = None"
    by (simp_all add: merge_patch_request_def)
  show "patch_orden e d ident b = (Response 404 (Failure IndiceFueraDeRango), d)"
    by (rule orden_patch_out_of_range [OF q po ord r])
qed

theorem merge_patch_out_of_range_witness:
  "patch_orden sample_env sample_ordenes_db ''dddddddddddddddddddddddd'' (sample_item_patch 5)
     = (Response 404 (Failure IndiceFueraDeRango), sample_ordenes_db)
   \<and> patch_procedimiento_realizado sample_env sample_historias_db ''123'' ''5'' sample_proc_patch
     = (Response 404 (Failure IndiceFueraDeRango), sample_historias_db)"
proof -
  have h1: "parseInt10 ''5'' = Some (int 5) \<and> ProcPatch_parse sample_proc_patch \<noteq> None
      \<and> procedimientos_of sample_historias_db ''123'' = Some sample_realizados
      \<and> length sample_realizados \<le> 5"
    by code_simp
  have h2: "oidMaybe sample_env (JStr ''dddddddddddddddddddddddd'')
        = Some (ObjectId ''dddddddddddddddddddddddd'')
      \<and> merge_patch_request (sample_item_patch 5) 5
      \<and> productos_of sample_ordenes_db (ObjectId ''dddddddddddddddddddddddd'')
          = Some sample_productos
      \<and> length sample_productos \<le> 5"
    by code_simp
  show ?thesis
    using merge_patch_out_of_range [where d = sample_historias_db and paciente = "''123''"
        and xs = sample_realizados and index = "''5''" and i = 5 and e = sample_env
        and pb = sample_proc_patch]
      merge_patch_out_of_range [where d = sample_ordenes_db and e = sample_env
        and ident = "''dddddddddddddddddddddddd''" and oid = "ObjectId ''dddddddddddddddddddddddd''"
        and b = "sample_item_patch 5" and j = 5 and ys = sample_productos]
      h1 h2
    by blast
qed

text \<open>
  C7. The deletion by index in a laboratory order looks nothing up: it always answers
  with success, and at an index at or beyond the length the array of the order is the
  old one after \<open>$pull: null\<close>, that is the old one itself when it holds no \<open>null\<close>. The
  deletion by index in a clinical history looks the element up first and at such an
  index answers 404 with the error of the index out of range, the store unchanged.
\<close>

theorem delete_index_out_of_range:
  "(oidMaybe e (JStr ident) = Some oid \<and> delete_index_request b j
     \<longrightarrow> status (fst (patch_orden e d ident b)) = 200 \<and> ok (fst (patch_orden e d ident b)))
   \<and> (oidMaybe e (JStr ident) = Some oid \<and> delete_index_request b j
      \<and> productos_of d oid = Some ys \<and> length ys \<le> j
     \<longrightarrow> productos_of (snd (patch_orden e d ident b)) oid = Some (pull_null ys)
         \<and> (None \<notin> set ys \<longrightarrow> pull_null ys = ys))
   \<and> (parseInt10 index = Some (int i) \<and> procedimientos_of d paciente = Some xs \<and> length xs \<le> i
     \<longrightarrow> delete_procedimiento_realizado e d paciente index
           = (Response 404 (Failure IndiceFueraDeRango), d))"
proof (intro conjI impI)
  assume a: "oidMaybe e (JStr ident) = Some oid \<and> delete_index_request b j"
  then have q: "oidMaybe e (JStr ident) = Some oid" "OrdenLabPatch_parse b \<noteq> None"
      "set_productos b = None" "push_productos b = None" "producto_patch b = None"
      "producto_delete_index b = Some (int j)"
    by (simp_all add: delete_index_request_def)
  from orden_delete_reports_success [OF q]
  show "status (fst (patch_orden e d ident b)) = 200" and "ok (fst (patch_orden e d ident b))"
    by simp_all
next
  assume a: "oidMaybe e (JStr ident) = Some oid \<and> delete_index_request b j
      \<and> productos_of d oid = Some ys \<and> length ys \<le> j"
  then obtain ord where ord: "findOne (\<lambda>x. orden_id x = oid) (col_ordenes_laboratorio d) = Some ord"
      and ys: "productos ord = ys"
    by (auto simp: productos_of_def)
  from a ys have r: "length (productos ord) \<le> j" by simp
  from a have q: "oidMaybe e (JStr ident) = Some oid" "OrdenLabPatch_parse b \<noteq> None"
      "set_productos b = None" "push_productos b = None" "producto_patch b = None"
      "producto_delete_index b = Some (int j)"
    by (simp_all add: delete_index_request_def)
  from orden_delete_out_of_range [OF q ord r]
  show "productos_of (snd (patch_orden e d ident b)) oid = Some (pull_null ys)"
    by (simp add: productos_of_def ys)
  show "pull_null ys = ys" if "None \<notin> set ys"
    using no_null_filter [OF that] by (simp add: pull_null_def)
next
  assume a: "parseInt10 index = Some (int i) \<and> procedimientos_of d paciente = Some xs
      \<and> length xs \<le> i"
  then obtain h where h: "findOne (\<lambda>h. h_paciente_id h = paciente) (col_historias_clinicas d) = Some h"
      and xs: "procedimientos_realizados h = xs"
    by (auto simp: procedimientos_of_def)
  from a xs have "length (procedimientos_realizados h) \<le> i" by simp
  from historia_out_of_range(1) [OF h _ this, of index e] a
  show "delete_procedimiento_realizado e d paciente index
           = (Response 404 (Failure IndiceFueraDeRango), d)"
    by simp
qed

theorem delete_index_out_of_range_witness:
  "status (fst (patch_orden sample_env sample_ordenes_db ''dddddddddddddddddddddddd''
                  (sample_delete_patch 5))) = 200
   \<and> ok (fst (patch_orden sample_env sample_ordenes_db ''dddddddddddddddddddddddd''
                  (sample_delete_patch 5)))
   \<and> productos_of
       (snd (patch_orden sample_env sample_ordenes_db ''dddddddddddddddddddddddd''
               (sample_delete_patch 5)))
       (ObjectId ''dddddddddddddddddddddddd'')
     = Some sample_productos
   \<and> delete_procedimiento_realizado sample_env sample_historias_db ''123'' ''5''
     = (Response 404 (Failure IndiceFueraDeRango), sample_historias_db)"
proof -
  have h1: "parseInt10 ''5'' = Some (int 5)
      \<and> procedimientos_of sample_historias_db ''123'' = Some sample_realizados
      \<and> length sample_realizados \<le> 5"
    by code_simp
  have h2: "oidMaybe sample_env (JStr ''dddddddddddddddddddddddd'')
        = Some (ObjectId ''dddddddddddddddddddddddd'')
      \<and> delete_index_request (sample_delete_patch 5) 5
      \<and> productos_of sample_ordenes_db (ObjectId ''dddddddddddddddddddddddd'')
          = Some sample_productos
      \<and> length sample_productos \<le> 5"
    by code_simp
  have h3: "None \<notin> set sample_productos"
    by code_simp
  show ?thesis
    using delete_index_out_of_range [where d = sample_historias_db and paciente = "''123''"
        and xs = sample_realizados and index = "''5''" and i = 5 and e = sample_env]
      delete_index_out_of_range [where d = sample_ordenes_db and e = sample_env
        and ident = "''dddddddddddddddddddddddd''" and oid = "ObjectId ''dddddddddddddddddddddddd''"
        and b = "sample_delete_patch 5" and j = 5 and ys = sample_productos]
      h1 h2 h3
    by simp
qed


end
